theory Spec2Isabelle
  imports Complex_Main "HOL-Library.Word" "HOL-Library.AList" "HOL-Library.Monad_Syntax"
begin

section \<open>Bytes, hexadecimal and decimal strings\<close>

type_synonym byte = "8 word"

text \<open>
  The \<open>w\<close>-byte big-endian representation of a natural number (the low \<open>w\<close> bytes
  when the number is wider).
\<close>

fun be_bytes :: "nat \<Rightarrow> nat \<Rightarrow> byte list" where
  "be_bytes 0 n = []"
| "be_bytes (Suc w) n = be_bytes w (n div 256) @ [of_nat (n mod 256)]"

definition hexval :: "char \<Rightarrow> nat option" where
  "hexval c =
     (let k = (of_char c :: nat) in
      if 48 \<le> k \<and> k \<le> 57 then Some (k - 48)
      else if 97 \<le> k \<and> k \<le> 102 then Some (k - 87)
      else if 65 \<le> k \<and> k \<le> 70 then Some (k - 55)
      else None)"

text \<open>Pairs of hexadecimal digits to bytes; the digit string has even length.\<close>

fun hex_pairs :: "string \<Rightarrow> byte list option" where
  "hex_pairs [] = Some []"
| "hex_pairs [c] = None"
| "hex_pairs (c # d # cs) =
     (case (hexval c, hexval d, hex_pairs cs) of
        (Some h, Some l, Some bs) \<Rightarrow> Some (of_nat (16 * h + l) # bs)
      | _ \<Rightarrow> None)"

text \<open>\<open>padToEven\<close>: a leading zero digit in front of an odd number of digits.\<close>

definition padToEven :: "string \<Rightarrow> string" where
  "padToEven s = (if odd (length s) then CHR ''0'' # s else s)"

definition hexdigit :: "nat \<Rightarrow> char" where
  "hexdigit k = (if k < 10 then char_of (48 + k) else char_of (87 + k))"

definition hex_of_byte :: "byte \<Rightarrow> string" where
  "hex_of_byte b = [hexdigit (unat b div 16), hexdigit (unat b mod 16)]"

text \<open>\<open>ethUtils.bufferToHex\<close>: the bytes as lower-case hexadecimal digits after \<open>0x\<close>.\<close>

definition bufferToHex :: "byte list \<Rightarrow> string" where
  "bufferToHex bs = ''0x'' @ concat (map hex_of_byte bs)"

definition digitval :: "char \<Rightarrow> nat option" where
  "digitval c =
     (let k = (of_char c :: nat) in if 48 \<le> k \<and> k \<le> 57 then Some (k - 48) else None)"

fun parse_digits :: "nat \<Rightarrow> string \<Rightarrow> nat option" where
  "parse_digits acc [] = Some acc"
| "parse_digits acc (c # cs) =
     (case digitval c of None \<Rightarrow> None | Some d \<Rightarrow> parse_digits (10 * acc + d) cs)"

text \<open>
  A decimal string of digits only, as the relay and \<open>toString()\<close> produce for raw
  amounts, timestamps and salts. Signs, fractions and exponents, which the big-number
  constructor also reads, are outside the modelled fragment (\<open>None\<close>).
\<close>

definition parse_decimal :: "string \<Rightarrow> nat option" where
  "parse_decimal s = (if s = [] then None else parse_digits 0 s)"

text \<open>The decimal digits of a natural number, as \<open>toString()\<close> gives them.\<close>

fun decimal :: "nat \<Rightarrow> string" where
  "decimal n =
     (if n < 10 then [char_of (48 + n)]
      else decimal (n div 10) @ [char_of (48 + n mod 10)])"

declare decimal.simps [simp del]

section \<open>JavaScript numbers and objects\<close>

fun bit_length :: "nat \<Rightarrow> nat" where
  "bit_length n = (if n = 0 then 0 else Suc (bit_length (n div 2)))"

declare bit_length.simps [simp del]

text \<open>
  \<open>new BigNumber(s, 10).toNumber()\<close> on a non-negative integer: the nearest
  double-precision number, ties to the even significand. A double has 53 significant
  bits, so an integer below \<open>2 ^ 53\<close> is kept and a larger one loses its low
  \<open>bit_length n - 53\<close> bits to rounding. (Integers from \<open>2 ^ 1024\<close> on become
  \<open>Infinity\<close> in JavaScript; the packer below refuses every number from \<open>2 ^ 53\<close>
  on, so they are refused here too.)
\<close>

definition toNumber :: "nat \<Rightarrow> nat" where
  "toNumber n =
     (if n < 2 ^ 53 then n
      else
        let e = bit_length n - 53;
            q = n div 2 ^ e;
            r = n mod 2 ^ e;
            half = 2 ^ (e - 1);
            q' = (if half < r \<or> (r = half \<and> odd q) then q + 1 else q)
        in q' * 2 ^ e)"

text \<open>
  The values the order code handles: strings, numbers and objects, an object being its
  properties in insertion order. \<open>JNumber\<close> is a non-negative integral double, which
  is what \<open>toNumber\<close> yields; \<open>JDecimal\<close> is the display value of an amount, whose
  rounding is not modelled.
\<close>

datatype jsvalue =
    JUndefined
  | JString string
  | JNumber nat
  | JDecimal rat
  | JObject "(string \<times> jsvalue) list"

text \<open>
  Reading the property \<open>k\<close> of \<open>v\<close>. A missing property reads as \<open>undefined\<close>;
  reading a property of \<open>undefined\<close> throws (\<open>None\<close>).
\<close>

fun getProp :: "jsvalue \<Rightarrow> string \<Rightarrow> jsvalue option" where
  "getProp (JObject ps) k = (case map_of ps k of None \<Rightarrow> Some JUndefined | Some v \<Rightarrow> Some v)"
| "getProp JUndefined k = None"
| "getProp v k = Some JUndefined"

text \<open>
  \<open>new BigNumber(v, 10).toNumber()\<close> for a string of decimal digits; other arguments
  are outside the modelled fragment.
\<close>

fun bigNumberToNumber :: "jsvalue \<Rightarrow> nat option" where
  "bigNumberToNumber (JString s) = map_option toNumber (parse_decimal s)"
| "bigNumberToNumber v = None"

section \<open>Primitives and the hasher\<close>

text \<open>
  The primitives of the third-party packages, left uninterpreted: the hash function,
  the checksum spelling of an address, the validity of a private key, the address of
  a private key, the elliptic-curve signature of a digest (as one hexadecimal string)
  and its split into \<open>r\<close>, \<open>s\<close> and \<open>v\<close>, the slow key derivation from a password
  and a salt, and the symmetric cipher of the keystore. The theorems below hold for
  all of them, under the hypotheses on them that a theorem states.
\<close>

record signingKeyData =
  sk_privateKey :: string
  sk_mnemonic :: "string option"

record ecSignature =
  sig_v :: nat
  sig_r :: string
  sig_s :: string

record signature =
  concatSig :: string
  signature_ecSignature :: ecSignature

record prims =
  keccak256 :: "byte list \<Rightarrow> byte list"
  toChecksumAddress :: "string \<Rightarrow> string"
  validPrivateKey :: "string \<Rightarrow> bool"
  computeAddress :: "string \<Rightarrow> string"
  signDigest :: "string \<Rightarrow> byte list \<Rightarrow> string"
  splitSignature :: "string \<Rightarrow> ecSignature"
  deriveKey :: "string \<Rightarrow> string \<Rightarrow> string"
  encryptSym :: "string \<Rightarrow> string \<Rightarrow> signingKeyData \<Rightarrow> string"
  decryptSym :: "string \<Rightarrow> string \<Rightarrow> signingKeyData option"

datatype soltype = TAddress | TUint256

text \<open>
  \<open>toBuffer\<close> on a string: a \<open>0x\<close>-prefixed hexadecimal string is decoded, with a
  leading zero digit when the number of digits is odd. Other strings are outside the
  modelled fragment.
\<close>

definition toBuffer :: "string \<Rightarrow> byte list option" where
  "toBuffer s =
     (if take 2 s = ''0x'' then hex_pairs (padToEven (drop 2 s)) else None)"

text \<open>\<open>setLengthLeft\<close>: zero bytes in front up to the length, or the last bytes.\<close>

definition setLengthLeft :: "byte list \<Rightarrow> nat \<Rightarrow> byte list" where
  "setLengthLeft bs n =
     (if length bs < n then replicate (n - length bs) 0 @ bs
      else drop (length bs - n) bs)"

text \<open>
  Modelled from the spec: the Deterministic Hasher is the third-party ABI package's
  \<open>soliditySHA3\<close>, which is not among the sources. As the specification describes it,
  each field is encoded in the fixed width of its declared type (an address in 20
  bytes, a \<open>uint256\<close> as a 32-byte big-endian unsigned integer), the encodings are
  concatenated in declaration order with no separators, and the 256-bit keccak of the
  concatenation is the digest. A JavaScript number is read through the big-number
  constructor of the package, which takes safe integers only: a number from \<open>2 ^ 53\<close>
  on is refused, as the specification requires of magnitudes that may have lost
  precision. A number below \<open>2 ^ 53\<close> fits the 256 bits. Lists of different lengths
  are refused too.
\<close>

fun packElem :: "soltype \<Rightarrow> jsvalue \<Rightarrow> byte list option" where
  "packElem TAddress (JString s) = map_option (\<lambda>bs. setLengthLeft bs 20) (toBuffer s)"
| "packElem TUint256 (JNumber n) = (if n < 2 ^ 53 then Some (be_bytes 32 n) else None)"
| "packElem t v = None"

definition solidityPack :: "soltype list \<Rightarrow> jsvalue list \<Rightarrow> byte list option" where
  "solidityPack types values =
     (if length types \<noteq> length values then None
      else map_option concat (those (map2 packElem types values)))"

definition soliditySHA3 :: "prims \<Rightarrow> soltype list \<Rightarrow> jsvalue list \<Rightarrow> byte list option" where
  "soliditySHA3 P types values = map_option (keccak256 P) (solidityPack types values)"

subsection \<open>\<open>Exchange.getOrderHashHex\<close>\<close>

text \<open>The local \<open>orderParts\<close>: the twelve value and type pairs, in the order written.\<close>

definition orderParts :: "jsvalue \<Rightarrow> (jsvalue \<times> soltype) list option" where
  "orderParts order = do {
     exchangeContractAddress \<leftarrow> getProp order ''exchangeContractAddress'';
     maker \<leftarrow> getProp order ''maker'';
     taker \<leftarrow> getProp order ''taker'';
     makerTokenAddress \<leftarrow> getProp order ''makerTokenAddress'';
     takerTokenAddress \<leftarrow> getProp order ''takerTokenAddress'';
     feeRecipient \<leftarrow> getProp order ''feeRecipient'';
     makerTokenAmount \<leftarrow> getProp order ''makerTokenAmount'' \<bind> (\<lambda>a. getProp a ''raw'')
        \<bind> bigNumberToNumber;
     takerTokenAmount \<leftarrow> getProp order ''takerTokenAmount'' \<bind> (\<lambda>a. getProp a ''raw'')
        \<bind> bigNumberToNumber;
     makerFee \<leftarrow> getProp order ''makerFee'' \<bind> (\<lambda>a. getProp a ''raw'') \<bind> bigNumberToNumber;
     takerFee \<leftarrow> getProp order ''takerFee'' \<bind> (\<lambda>a. getProp a ''raw'') \<bind> bigNumberToNumber;
     expirationUnixTimestampSec \<leftarrow>
        getProp order ''expirationUnixTimestampSec'' \<bind> bigNumberToNumber;
     salt \<leftarrow> getProp order ''salt'' \<bind> bigNumberToNumber;
     Some [
       (exchangeContractAddress, TAddress),
       (maker, TAddress),
       (taker, TAddress),
       (makerTokenAddress, TAddress),
       (takerTokenAddress, TAddress),
       (feeRecipient, TAddress),
       (JNumber makerTokenAmount, TUint256),
       (JNumber takerTokenAmount, TUint256),
       (JNumber makerFee, TUint256),
       (JNumber takerFee, TUint256),
       (JNumber expirationUnixTimestampSec, TUint256),
       (JNumber salt, TUint256)]
   }"

definition getOrderHashHex :: "prims \<Rightarrow> jsvalue \<Rightarrow> string option" where
  "getOrderHashHex P order = do {
     parts \<leftarrow> orderParts order;
     let types = map snd parts;
     let values = map fst parts;
     hashBuff \<leftarrow> soliditySHA3 P types values;
     Some (bufferToHex hashBuff)
   }"


subsection \<open>The order hash as the specification states it\<close>

text \<open>
  The twelve fields of an order that enter the hash: six addresses as \<open>0x\<close>-prefixed
  hexadecimal strings and six unsigned integers (the raw amounts, the timestamp and
  the salt are decimal strings in the order; here the numbers they denote).
\<close>

record order_fields =
  fld_exchangeContractAddress :: string
  fld_maker :: string
  fld_taker :: string
  fld_makerTokenAddress :: string
  fld_takerTokenAddress :: string
  fld_feeRecipient :: string
  fld_makerTokenAmount :: nat
  fld_takerTokenAmount :: nat
  fld_makerFee :: nat
  fld_takerFee :: nat
  fld_expirationUnixTimestampSec :: nat
  fld_salt :: nat

fun readString :: "jsvalue \<Rightarrow> string option" where
  "readString (JString s) = Some s"
| "readString v = None"

fun readDecimal :: "jsvalue \<Rightarrow> nat option" where
  "readDecimal (JString s) = parse_decimal s"
| "readDecimal v = None"

text \<open>
  The twelve fields an order object carries, whatever else it carries and in whatever
  order its properties were inserted.
\<close>

definition orderFieldsOf :: "jsvalue \<Rightarrow> order_fields option" where
  "orderFieldsOf order = do {
     a1 \<leftarrow> getProp order ''exchangeContractAddress'' \<bind> readString;
     a2 \<leftarrow> getProp order ''maker'' \<bind> readString;
     a3 \<leftarrow> getProp order ''taker'' \<bind> readString;
     a4 \<leftarrow> getProp order ''makerTokenAddress'' \<bind> readString;
     a5 \<leftarrow> getProp order ''takerTokenAddress'' \<bind> readString;
     a6 \<leftarrow> getProp order ''feeRecipient'' \<bind> readString;
     n1 \<leftarrow> getProp order ''makerTokenAmount'' \<bind> (\<lambda>a. getProp a ''raw'') \<bind> readDecimal;
     n2 \<leftarrow> getProp order ''takerTokenAmount'' \<bind> (\<lambda>a. getProp a ''raw'') \<bind> readDecimal;
     n3 \<leftarrow> getProp order ''makerFee'' \<bind> (\<lambda>a. getProp a ''raw'') \<bind> readDecimal;
     n4 \<leftarrow> getProp order ''takerFee'' \<bind> (\<lambda>a. getProp a ''raw'') \<bind> readDecimal;
     n5 \<leftarrow> getProp order ''expirationUnixTimestampSec'' \<bind> readDecimal;
     n6 \<leftarrow> getProp order ''salt'' \<bind> readDecimal;
     Some \<lparr> fld_exchangeContractAddress = a1, fld_maker = a2, fld_taker = a3,
            fld_makerTokenAddress = a4, fld_takerTokenAddress = a5, fld_feeRecipient = a6,
            fld_makerTokenAmount = n1, fld_takerTokenAmount = n2, fld_makerFee = n3,
            fld_takerFee = n4, fld_expirationUnixTimestampSec = n5, fld_salt = n6 \<rparr>
   }"

definition addressWord :: "string \<Rightarrow> byte list" where
  "addressWord a = (case toBuffer a of Some bs \<Rightarrow> bs | None \<Rightarrow> [])"

definition isAddress :: "string \<Rightarrow> bool" where
  "isAddress a = (case toBuffer a of Some bs \<Rightarrow> length bs = 20 | None \<Rightarrow> False)"

definition addressFields :: "order_fields \<Rightarrow> string list" where
  "addressFields f =
     [fld_exchangeContractAddress f, fld_maker f, fld_taker f,
      fld_makerTokenAddress f, fld_takerTokenAddress f, fld_feeRecipient f]"

definition uintFields :: "order_fields \<Rightarrow> nat list" where
  "uintFields f =
     [fld_makerTokenAmount f, fld_takerTokenAmount f, fld_makerFee f, fld_takerFee f,
      fld_expirationUnixTimestampSec f, fld_salt f]"

text \<open>
  The preimage in the specification's words: the six addresses as 20-byte words, then
  the six integers as 32-byte big-endian words, in this order, nothing in between.
\<close>

definition orderPreimageSpec :: "order_fields \<Rightarrow> byte list" where
  "orderPreimageSpec f =
     concat (map addressWord (addressFields f)) @ concat (map (be_bytes 32) (uintFields f))"

definition orderHashSpec :: "prims \<Rightarrow> order_fields \<Rightarrow> string" where
  "orderHashSpec P f = bufferToHex (keccak256 P (orderPreimageSpec f))"

text \<open>
  A well-formed order: every address is twenty bytes, and every integer is below
  \<open>2 ^ 53\<close>, so that it round-trips through the double-precision conversion without
  loss.
\<close>

definition wellFormedOrder :: "order_fields \<Rightarrow> bool" where
  "wellFormedOrder f \<longleftrightarrow>
     list_all isAddress (addressFields f) \<and> list_all (\<lambda>n. n < 2 ^ 53) (uintFields f)"

text \<open>
  An order as \<open>makeOrder\<close> builds it (properties in the order of its object literal),
  with the given salt, and the fields it carries.
\<close>

definition exampleOrder :: "string \<Rightarrow> jsvalue" where
  "exampleOrder salt = JObject [
     (''exchangeContractAddress'', JString ''0x00000000000000000000000000000000000000e1''),
     (''expirationUnixTimestampSec'', JString ''2524604400''),
     (''feeRecipient'', JString ''0x0000000000000000000000000000000000000000''),
     (''maker'', JString ''0x00000000000000000000000000000000000000a1''),
     (''makerFee'', JObject [(''decimals'', JNumber 2), (''raw'', JString ''0''), (''value'', JNumber 0)]),
     (''makerTokenAddress'', JString ''0x00000000000000000000000000000000000000b1''),
     (''makerTokenAmount'',
        JObject [(''decimals'', JNumber 2), (''raw'', JString ''100''), (''value'', JNumber 1)]),
     (''salt'', JString salt),
     (''taker'', JString ''0x0000000000000000000000000000000000000000''),
     (''takerFee'', JObject [(''decimals'', JNumber 2), (''raw'', JString ''0''), (''value'', JNumber 0)]),
     (''takerTokenAddress'', JString ''0x00000000000000000000000000000000000000b2''),
     (''takerTokenAmount'',
        JObject [(''decimals'', JNumber 4), (''raw'', JString ''50000''), (''value'', JNumber 5)])]"

definition exampleFields :: "nat \<Rightarrow> order_fields" where
  "exampleFields salt = \<lparr>
     fld_exchangeContractAddress = ''0x00000000000000000000000000000000000000e1'',
     fld_maker = ''0x00000000000000000000000000000000000000a1'',
     fld_taker = ''0x0000000000000000000000000000000000000000'',
     fld_makerTokenAddress = ''0x00000000000000000000000000000000000000b1'',
     fld_takerTokenAddress = ''0x00000000000000000000000000000000000000b2'',
     fld_feeRecipient = ''0x0000000000000000000000000000000000000000'',
     fld_makerTokenAmount = 100,
     fld_takerTokenAmount = 50000,
     fld_makerFee = 0,
     fld_takerFee = 0,
     fld_expirationUnixTimestampSec = 2524604400,
     fld_salt = salt \<rparr>"

text \<open>A stand-in for the primitives, to evaluate the definitions at concrete inputs.\<close>

definition examplePrims :: prims where
  "examplePrims = \<lparr>
     keccak256 = take 32,
     toChecksumAddress = (\<lambda>a. a),
     validPrivateKey = (\<lambda>k. length k = 66),
     computeAddress = (\<lambda>k. ''0x'' @ take 40 (drop 2 k)),
     signDigest = (\<lambda>k digest. bufferToHex digest),
     splitSignature = (\<lambda>flat. \<lparr> sig_v = 27, sig_r = flat, sig_s = flat \<rparr>),
     deriveKey = (\<lambda>password slt. password @ slt),
     encryptSym = (\<lambda>k iv m. k @ sk_privateKey m),
     decryptSym = (\<lambda>k c.
        if take (length k) c = k
        then Some \<lparr> sk_privateKey = drop (length k) c, sk_mnemonic = None \<rparr>
        else None) \<rparr>"

section \<open>The order assembler (\<open>Exchange\<close>)\<close>

subsection \<open>Failures, collaborators and their calls\<close>

text \<open>
  The failures of the modelled code, named after what the code throws or rejects with:
  \<^item> \<open>NoWalletLoaded\<close>: \<open>Error('No wallet loaded.')\<close>, the specification's
    \<open>NoAccountLoadedError\<close>;
  \<^item> \<open>InvalidHexString\<close>: \<open>Error('Message hash is not a valid hex string.')\<close>, the
    specification's \<open>InvalidInputError\<close>;
  \<^item> \<open>NoPathWithCapacity\<close>: the rejection \<open>'Could not find a path with enough
    capacity'\<close>, the specification's \<open>RouteNotFoundError\<close>;
  \<^item> \<open>WalletDataRejected\<close>: what \<open>verifyWalletData\<close> throws, the specification's
    \<open>FormatError\<close>;
  \<^item> \<open>NotImplemented\<close>: \<open>Error('Method not implemented.')\<close>;
  \<^item> \<open>External m\<close>: a collaborator or a library failed with message \<open>m\<close>.
\<close>

datatype error =
    NoWalletLoaded
  | InvalidHexString
  | NoPathWithCapacity
  | WalletDataRejected
  | NotImplemented
  | External string

text \<open>
  A number that is a token value: a rational, or not finite (\<open>NaN\<close>, \<open>Infinity\<close>).
  The rounding of the big-number division to twenty decimal places and the rounding to
  a double are not modelled; the value is only forwarded to the path-finding
  collaborator.
\<close>

datatype jsnum = Finite rat | NotFinite

record amount =
  decimals :: nat
  raw :: string
  amt_value :: rat

record order =
  exchangeContractAddress :: string
  maker :: string
  taker :: string
  makerTokenAddress :: string
  takerTokenAddress :: string
  feeRecipient :: string
  makerTokenAmount :: amount
  takerTokenAmount :: amount
  makerFee :: amount
  takerFee :: amount
  expirationUnixTimestampSec :: string
  salt :: string

record signedOrder = order +
  ecSignature :: ecSignature

record exchangeOptions =
  gasLimit :: "rat option"
  gasPrice :: "rat option"
  makerTokenDecimals :: "nat option"
  takerTokenDecimals :: "nat option"
  expirationUnixTimestampSecOption :: "nat option"

text \<open>
  The maximal fees of a route: the number \<open>0\<close> of the sentinel, or the amount the
  path-finding collaborator reports.
\<close>

datatype fees = FeeNumber nat | FeeAmount amount

record route =
  path :: "string list"
  maxFees :: fees
  estimatedGas :: nat

text \<open>
  What \<open>getPathObj\<close> returns: a route, with the flag \<open>isNoNetwork\<close>. The routes of
  the path-finding collaborator carry no such property, which reads as \<open>undefined\<close> and
  so as false.
\<close>

record pathObj = route +
  isNoNetwork :: bool

datatype txarg =
    ArgAddresses "string list"
  | ArgNumbers "nat option list"
  | ArgRaw string
  | ArgNumber nat
  | ArgString string

record funcTx =
  tx_from :: string
  tx_to :: string
  contractName :: string
  functionName :: string
  args :: "txarg list"
  tx_gasPrice :: "rat option"
  tx_gasLimit :: "rat option"

record preparedTx =
  rawTx :: string
  ethFees :: amount

record takeOrderTx = preparedTx +
  makerMaxFees :: fees
  makerPath :: "string list"
  takerMaxFees :: fees
  takerPath :: "string list"

text \<open>
  The collaborators of \<open>Exchange\<close>, as functions of their arguments; a collaborator
  that fails returns its message on the left.
\<close>

record env =
  userAddress :: string
  getDecimals :: "string \<Rightarrow> nat option \<Rightarrow> string + nat"
  isNetwork :: "string \<Rightarrow> string + bool"
  getPath :: "string \<Rightarrow> string \<Rightarrow> string \<Rightarrow> jsnum \<Rightarrow> nat \<Rightarrow> string + route"
  prepFuncTx :: "funcTx \<Rightarrow> string + preparedTx"
  calcRaw :: "rat \<Rightarrow> nat \<Rightarrow> string"
  formatAmount :: "rat \<Rightarrow> nat \<Rightarrow> amount"
  signTx :: "string \<Rightarrow> string + string"
  relayTx :: "string \<Rightarrow> string + string"
  userSignMsgHash :: "string \<Rightarrow> string + signature"
  postRequest :: "string \<Rightarrow> jsvalue \<Rightarrow> string + unit"

text \<open>The calls to collaborators that an operation makes, in the order it starts them.\<close>

datatype call =
    GetDecimals string
  | IsNetwork string
  | GetPath string string string jsnum
  | PrepFuncTx funcTx
  | SignTx string
  | RelayTx string
  | SignMsgHash string
  | PostRequest string jsvalue

text \<open>
  An operation yields the calls it made and its outcome. \<open>allIO2\<close> is
  \<open>Promise.all\<close> on two operations: both are started, and the first failure in the
  order of the array is the outcome (which of two failures arrives first in time is
  not modelled).
\<close>

type_synonym 'a io = "call list \<times> (error + 'a)"

definition ret :: "'a \<Rightarrow> 'a io" where
  "ret x = ([], Inr x)"

definition failIO :: "error \<Rightarrow> 'a io" where
  "failIO e = ([], Inl e)"

definition bindIO :: "'a io \<Rightarrow> ('a \<Rightarrow> 'b io) \<Rightarrow> 'b io" where
  "bindIO m f =
     (case snd m of
        Inl e \<Rightarrow> (fst m, Inl e)
      | Inr x \<Rightarrow> (fst m @ fst (f x), snd (f x)))"

definition allIO2 :: "'a io \<Rightarrow> 'b io \<Rightarrow> ('a \<times> 'b) io" where
  "allIO2 a b =
     (fst a @ fst b,
      case snd a of
        Inl e \<Rightarrow> Inl e
      | Inr x \<Rightarrow> (case snd b of Inl e \<Rightarrow> Inl e | Inr y \<Rightarrow> Inr (x, y)))"

definition external :: "call \<Rightarrow> string + 'a \<Rightarrow> 'a io" where
  "external c r = ([c], case r of Inl m \<Rightarrow> Inl (External m) | Inr x \<Rightarrow> Inr x)"

subsection \<open>The operations\<close>

definition ZERO_ADDRESS :: string where
  "ZERO_ADDRESS = ''0x0000000000000000000000000000000000000000''"

definition getPathObj :: "env \<Rightarrow> string \<Rightarrow> string \<Rightarrow> string \<Rightarrow> jsnum \<Rightarrow> nat \<Rightarrow> pathObj io" where
  "getPathObj E tokenAddress fromAddr toAddr val decs =
     bindIO (external (IsNetwork tokenAddress) (isNetwork E tokenAddress))
       (\<lambda>network.
          if network
          then bindIO
                 (external (GetPath tokenAddress fromAddr toAddr val)
                    (getPath E tokenAddress fromAddr toAddr val decs))
                 (\<lambda>rt. ret (route.extend rt (pathObj.fields False)))
          else ret \<lparr> path = [], maxFees = FeeNumber 0, estimatedGas = 40000,
                      isNoNetwork = True \<rparr>)"

definition getOrderAddresses :: "'a order_scheme \<Rightarrow> string list" where
  "getOrderAddresses order =
     [maker order, ZERO_ADDRESS, makerTokenAddress order, takerTokenAddress order,
      feeRecipient order]"

text \<open>
  \<open>toInt\<close> on a string is \<open>parseInt(int, 10)\<close>: the number of the longest prefix of
  digits, as a double, and \<open>NaN\<close> (\<open>None\<close>) when there is none. Leading blanks and
  signs are outside the modelled fragment.
\<close>

definition toInt :: "string \<Rightarrow> nat option" where
  "toInt s = map_option toNumber (parse_decimal (takeWhile (\<lambda>c. digitval c \<noteq> None) s))"

definition getOrderValues :: "'a order_scheme \<Rightarrow> nat option list" where
  "getOrderValues order =
     [toInt (raw (makerTokenAmount order)),
      toInt (raw (takerTokenAmount order)),
      Some 0,
      Some 0,
      toInt (expirationUnixTimestampSec order),
      toInt (salt order)]"

definition getPartialAmount :: "rat \<Rightarrow> rat \<Rightarrow> rat \<Rightarrow> jsnum" where
  "getPartialAmount numerator denominator target =
     (if denominator = 0 then NotFinite else Finite (numerator * target / denominator))"

definition getFees :: "env \<Rightarrow> 'a order_scheme \<Rightarrow> 'a order_scheme io" where
  "getFees E order =
     ret (order\<lparr> feeRecipient := ZERO_ADDRESS,
                 makerFee := formatAmount E 0 2,
                 takerFee := formatAmount E 0 2 \<rparr>)"

text \<open>The guard of \<open>prepTakeOrder\<close> on one leg: an empty path without the flag.\<close>

definition routeMissing :: "pathObj \<Rightarrow> bool" where
  "routeMissing p \<longleftrightarrow> length (path p) = 0 \<and> \<not> isNoNetwork p"

definition pathArg :: "string list \<Rightarrow> string list" where
  "pathArg p = (if length p = 1 then p else drop 1 p)"

definition prepTakeOrder ::
  "env \<Rightarrow> signedOrder \<Rightarrow> rat \<Rightarrow> exchangeOptions \<Rightarrow> takeOrderTx io" where
  "prepTakeOrder E signedOrder fillTakerTokenValue opts =
     bindIO
       (allIO2
          (external (GetDecimals (makerTokenAddress signedOrder))
             (getDecimals E (makerTokenAddress signedOrder) (makerTokenDecimals opts)))
          (allIO2
             (external (GetDecimals (takerTokenAddress signedOrder))
                (getDecimals E (takerTokenAddress signedOrder) (takerTokenDecimals opts)))
             (getFees E signedOrder)))
       (\<lambda>(makerDecimals, takerDecimals, orderWithFees).
          bindIO
            (allIO2
               (getPathObj E (makerTokenAddress signedOrder) (maker signedOrder) (userAddress E)
                  (getPartialAmount fillTakerTokenValue
                     (amt_value (takerTokenAmount signedOrder))
                     (amt_value (makerTokenAmount signedOrder)))
                  makerDecimals)
               (getPathObj E (takerTokenAddress signedOrder) (userAddress E) (maker signedOrder)
                  (Finite fillTakerTokenValue) takerDecimals))
            (\<lambda>(makerPathObj, takerPathObj).
               let orderAddresses = getOrderAddresses orderWithFees;
                   orderValues = getOrderValues orderWithFees
               in
                 if routeMissing makerPathObj \<or> routeMissing takerPathObj
                 then failIO NoPathWithCapacity
                 else bindIO
                   (let tx = \<lparr> tx_from = userAddress E,
                                tx_to = exchangeContractAddress signedOrder,
                                contractName = ''Exchange'',
                                functionName = ''fillOrderTrustlines'',
                                args =
                                  [ArgAddresses orderAddresses,
                                   ArgNumbers orderValues,
                                   ArgRaw (calcRaw E fillTakerTokenValue takerDecimals),
                                   ArgAddresses (pathArg (path makerPathObj)),
                                   ArgAddresses (pathArg (path takerPathObj)),
                                   ArgNumber (sig_v (ecSignature signedOrder)),
                                   ArgString (sig_r (ecSignature signedOrder)),
                                   ArgString (sig_s (ecSignature signedOrder))],
                                tx_gasPrice = gasPrice opts,
                                tx_gasLimit =
                                  Some (of_nat (estimatedGas takerPathObj +
                                                estimatedGas makerPathObj) * (3 / 2)) \<rparr>
                    in external (PrepFuncTx tx) (prepFuncTx E tx))
                   (\<lambda>prepared.
                      ret (preparedTx.extend prepared
                             (takeOrderTx.fields (maxFees makerPathObj) (path makerPathObj)
                                (maxFees takerPathObj) (path takerPathObj))))))"


definition confirm :: "env \<Rightarrow> string \<Rightarrow> string io" where
  "confirm E tx =
     bindIO (external (SignTx tx) (signTx E tx))
       (\<lambda>signedTx. external (RelayTx signedTx) (relayTx E signedTx))"

subsection \<open>\<open>makeOrder\<close> and its random salt\<close>

text \<open>
  Double-precision arithmetic on non-negative rationals below the overflow threshold:
  the result of an operation is the exact result rounded to the nearest double, ties
  to the even significand. \<open>ulp x\<close> is the spacing of the doubles around \<open>x\<close>: a
  double has 53 significant bits, and below \<open>2 ^ -1022\<close> the spacing stays
  \<open>2 ^ -1074\<close>.
\<close>

fun expBelow :: "nat \<Rightarrow> rat \<Rightarrow> nat" where
  "expBelow 0 x = 0"
| "expBelow (Suc f) x = (if 1 \<le> x then 0 else Suc (expBelow f (2 * x)))"

definition ulp :: "rat \<Rightarrow> rat" where
  "ulp x =
     (if 1 \<le> x then 2 ^ (bit_length (nat \<lfloor>x\<rfloor>) - 1) / 2 ^ 52
      else 1 / 2 ^ (expBelow 1022 x + 52))"

definition roundHalfEven :: "rat \<Rightarrow> int" where
  "roundHalfEven y =
     (let f = \<lfloor>y\<rfloor>; d = y - of_int f in
      if d < 1 / 2 then f
      else if 1 / 2 < d then f + 1
      else if even f then f else f + 1)"

definition roundToDouble :: "rat \<Rightarrow> rat" where
  "roundToDouble x = (if x = 0 then 0 else ulp x * of_int (roundHalfEven (x / ulp x)))"

text \<open>
  \<open>Math.floor(Math.random() * 1000000000)\<close>, for the draw \<open>rnd\<close> of
  \<open>Math.random()\<close>, which is a double in \<open>[0, 1)\<close>.
\<close>

definition randomSalt :: "rat \<Rightarrow> nat" where
  "randomSalt rnd = nat \<lfloor>roundToDouble (rnd * 1000000000)\<rfloor>"

text \<open>
  An amount and an order as the objects the hashing reads, the properties of the order
  in the order of the object literal of \<open>makeOrder\<close>.
\<close>

definition amountObject :: "amount \<Rightarrow> jsvalue" where
  "amountObject a =
     JObject [(''decimals'', JNumber (decimals a)), (''raw'', JString (raw a)),
              (''value'', JDecimal (amt_value a))]"

definition orderProps :: "'a order_scheme \<Rightarrow> (string \<times> jsvalue) list" where
  "orderProps order = [
     (''exchangeContractAddress'', JString (exchangeContractAddress order)),
     (''expirationUnixTimestampSec'', JString (expirationUnixTimestampSec order)),
     (''feeRecipient'', JString (feeRecipient order)),
     (''maker'', JString (maker order)),
     (''makerFee'', amountObject (makerFee order)),
     (''makerTokenAddress'', JString (makerTokenAddress order)),
     (''makerTokenAmount'', amountObject (makerTokenAmount order)),
     (''salt'', JString (salt order)),
     (''taker'', JString (taker order)),
     (''takerFee'', amountObject (takerFee order)),
     (''takerTokenAddress'', JString (takerTokenAddress order)),
     (''takerTokenAmount'', amountObject (takerTokenAmount order))]"

definition ecSignatureObject :: "ecSignature \<Rightarrow> jsvalue" where
  "ecSignatureObject g =
     JObject [(''r'', JString (sig_r g)), (''s'', JString (sig_s g)), (''v'', JNumber (sig_v g))]"

text \<open>
  \<open>makeOrder\<close>, with the draw \<open>rnd\<close> of \<open>Math.random()\<close>. The signed order is
  returned with its hash. A hashing that throws, or that leaves the modelled fragment,
  fails the operation.
\<close>

definition makeOrder ::
  "env \<Rightarrow> prims \<Rightarrow> rat \<Rightarrow> string \<Rightarrow> string \<Rightarrow> string \<Rightarrow> rat \<Rightarrow> rat \<Rightarrow> exchangeOptions \<Rightarrow>
     (signedOrder \<times> string) io" where
  "makeOrder E P rnd exchangeAddress makerToken takerToken makerTokenValue takerTokenValue opts =
     bindIO
       (allIO2
          (external (GetDecimals makerToken)
             (getDecimals E makerToken (makerTokenDecimals opts)))
          (external (GetDecimals takerToken)
             (getDecimals E takerToken (takerTokenDecimals opts))))
       (\<lambda>(makerDecimals, takerDecimals).
          let order = \<lparr>
                exchangeContractAddress = exchangeAddress,
                maker = userAddress E,
                taker = ZERO_ADDRESS,
                makerTokenAddress = toChecksumAddress P makerToken,
                takerTokenAddress = toChecksumAddress P takerToken,
                feeRecipient = ZERO_ADDRESS,
                makerTokenAmount = formatAmount E makerTokenValue makerDecimals,
                takerTokenAmount = formatAmount E takerTokenValue takerDecimals,
                makerFee = formatAmount E 0 makerDecimals,
                takerFee = formatAmount E 0 makerDecimals,
                expirationUnixTimestampSec =
                  decimal (case expirationUnixTimestampSecOption opts of
                             None \<Rightarrow> 2524604400 | Some t \<Rightarrow> t),
                salt = decimal (randomSalt rnd) \<rparr>
          in bindIO (getFees E order)
            (\<lambda>orderWithFees.
               case getOrderHashHex P (JObject (orderProps orderWithFees)) of
                 None \<Rightarrow> failIO (External ''order hash'')
               | Some orderHash \<Rightarrow>
                   bindIO (external (SignMsgHash orderHash) (userSignMsgHash E orderHash))
                     (\<lambda>sg.
                        let signed = order.extend orderWithFees
                              (signedOrder.fields (signature_ecSignature sg));
                            body = JObject
                              (AList.update ''takerTokenAmount''
                                 (JString (raw (takerTokenAmount orderWithFees)))
                              (AList.update ''makerTokenAmount''
                                 (JString (raw (makerTokenAmount orderWithFees)))
                              (AList.update ''takerFee''
                                 (JString (raw (takerFee orderWithFees)))
                              (AList.update ''makerFee''
                                 (JString (raw (makerFee orderWithFees)))
                                 (orderProps signed @
                                  [(''ecSignature'',
                                    ecSignatureObject (signature_ecSignature sg))])))))
                        in bindIO
                             (external (PostRequest ''exchange/order'' body)
                                (postRequest E ''exchange/order'' body))
                             (\<lambda>u. ret (signed, orderHash)))))"



subsection \<open>Concrete collaborators and a concrete signed order\<close>

text \<open>
  Collaborators to evaluate the operations with: the tokens of \<open>network\<close> are in the
  trustline network, and the path finder finds the path \<open>found\<close> (the empty path when
  there is none with enough capacity).
\<close>

definition exampleEnv :: "string list \<Rightarrow> string list \<Rightarrow> env" where
  "exampleEnv network found = \<lparr>
     userAddress = ''0x00000000000000000000000000000000000000c1'',
     getDecimals = (\<lambda>t d. Inr (case d of Some n \<Rightarrow> n | None \<Rightarrow> 2)),
     isNetwork = (\<lambda>t. Inr (t \<in> set network)),
     getPath = (\<lambda>t a b n d. Inr \<lparr>
        path = found,
        maxFees = FeeAmount \<lparr> decimals = d, raw = ''0'', amt_value = 0 \<rparr>,
        estimatedGas = (if found = [] then 0 else 100000) \<rparr>),
     prepFuncTx = (\<lambda>tx. Inr \<lparr>
        rawTx = ''0xf8'',
        ethFees = \<lparr> decimals = 18, raw = ''0'', amt_value = 0 \<rparr> \<rparr>),
     calcRaw = (\<lambda>v d. ''0''),
     formatAmount = (\<lambda>v d. \<lparr> decimals = d, raw = ''0'', amt_value = v \<rparr>),
     signTx = (\<lambda>tx. Inr tx),
     relayTx = (\<lambda>tx. Inr ''0x00''),
     userSignMsgHash = (\<lambda>h. Inr \<lparr>
        concatSig = h,
        signature_ecSignature = \<lparr> sig_v = 27, sig_r = h, sig_s = h \<rparr> \<rparr>),
     postRequest = (\<lambda>p b. Inr ()) \<rparr>"

text \<open>The same collaborators, with the network query failing for the token \<open>down\<close>.\<close>

definition exampleEnvDown :: "string list \<Rightarrow> string list \<Rightarrow> string \<Rightarrow> env" where
  "exampleEnvDown network found down =
     (exampleEnv network found)\<lparr>
        isNetwork := (\<lambda>t. if t = down then Inl ''relay unreachable''
                           else Inr (t \<in> set network)) \<rparr>"

definition tokenA :: string where
  "tokenA = ''0x00000000000000000000000000000000000000b1''"

definition tokenB :: string where
  "tokenB = ''0x00000000000000000000000000000000000000b2''"

definition exampleSignedOrder :: signedOrder where
  "exampleSignedOrder = \<lparr>
     exchangeContractAddress = ''0x00000000000000000000000000000000000000e1'',
     maker = ''0x00000000000000000000000000000000000000a1'',
     taker = ZERO_ADDRESS,
     makerTokenAddress = tokenA,
     takerTokenAddress = tokenB,
     feeRecipient = ZERO_ADDRESS,
     makerTokenAmount = \<lparr> decimals = 2, raw = ''100'', amt_value = 1 \<rparr>,
     takerTokenAmount = \<lparr> decimals = 4, raw = ''50000'', amt_value = 5 \<rparr>,
     makerFee = \<lparr> decimals = 2, raw = ''0'', amt_value = 0 \<rparr>,
     takerFee = \<lparr> decimals = 2, raw = ''0'', amt_value = 0 \<rparr>,
     expirationUnixTimestampSec = ''2524604400'',
     salt = ''12345'',
     ecSignature = \<lparr> sig_v = 27, sig_r = ''0x01'', sig_s = ''0x02'' \<rparr> \<rparr>"

definition noOptions :: exchangeOptions where
  "noOptions = \<lparr> gasLimit = None, gasPrice = None, makerTokenDecimals = None,
                  takerTokenDecimals = None, expirationUnixTimestampSecOption = None \<rparr>"

section \<open>The derived-key wallet (\<open>EthersWallet\<close>)\<close>

subsection \<open>Hexadecimal strings of the third-party wallet package\<close>

text \<open>
  \<open>isHexString(value, length?)\<close>: \<open>0x\<close> and hexadecimal digits only; with a length
  (other than 0) also exactly that many bytes.
\<close>

definition isHexString :: "string \<Rightarrow> nat option \<Rightarrow> bool" where
  "isHexString v len \<longleftrightarrow>
     take 2 v = ''0x'' \<and> list_all (\<lambda>c. hexval c \<noteq> None) (drop 2 v) \<and>
     (case len of None \<Rightarrow> True | Some n \<Rightarrow> n = 0 \<or> length v = 2 + 2 * n)"

text \<open>
  \<open>arrayify\<close> on a string: the bytes of a \<open>0x\<close>-prefixed hexadecimal string, with a
  zero digit in front of an odd number of digits; it throws on any other string.
\<close>

definition arrayify :: "string \<Rightarrow> error + byte list" where
  "arrayify v =
     (if take 2 v = ''0x'' \<and> list_all (\<lambda>c. hexval c \<noteq> None) (drop 2 v)
      then (case hex_pairs (padToEven (drop 2 v)) of
              Some bs \<Rightarrow> Inr bs
            | None \<Rightarrow> Inl (External ''invalid hexidecimal string''))
      else Inl (External ''invalid hexidecimal string''))"

subsection \<open>Wallet data and the wallet class\<close>

record ethersWalletData =
  wd_type :: string
  wd_version :: nat
  signingKey :: signingKeyData

record walletFromEthers =
  privateKey :: string
  mnemonic :: "string option"

record keystore =
  ks_salt :: string
  ks_ciphertext :: string

text \<open>A message to sign: bytes, or a string, which is signed as its characters.\<close>

datatype message = Bytes "byte list" | Text string

text \<open>
  The constants of \<open>TLWallet\<close>, which is not among the sources: the type tag of this
  backend, the versions a loader accepts and the version written.
\<close>

record walletConsts =
  WALLET_TYPE_ETHERS :: string
  EXPECTED_VERSIONS :: "nat list"
  TL_WALLET_VERSION :: nat

text \<open>
  Modelled from the spec: \<open>verifyWalletData\<close> of \<open>TLWallet\<close> is not among the
  sources. A loader must reject an unknown type or a version outside the accepted set
  before touching the payload.
\<close>

definition verifyWalletData :: "ethersWalletData \<Rightarrow> string \<Rightarrow> nat list \<Rightarrow> error + unit" where
  "verifyWalletData walletData walletType expectedVersions =
     (if wd_type walletData \<noteq> walletType then Inl WalletDataRejected
      else if wd_version walletData \<notin> set expectedVersions then Inl WalletDataRejected
      else Inr ())"

text \<open>
  Modelled from the spec: the class \<open>WalletFromEthers\<close> is not among the sources. A
  wallet is one key pair, with the mnemonic it was derived from when there is one;
  wallet data is a container with the type tag of the backend, the current version and
  the key as payload; a payload whose key is not a private key is corrupt.
\<close>

definition fromWalletData :: "prims \<Rightarrow> ethersWalletData \<Rightarrow> error + walletFromEthers" where
  "fromWalletData P walletData =
     (if validPrivateKey P (sk_privateKey (signingKey walletData))
      then Inr \<lparr> privateKey = sk_privateKey (signingKey walletData),
                 mnemonic = sk_mnemonic (signingKey walletData) \<rparr>
      else Inl (External ''invalid private key''))"

definition toEthersWalletData :: "walletConsts \<Rightarrow> walletFromEthers \<Rightarrow> ethersWalletData" where
  "toEthersWalletData K w = \<lparr>
     wd_type = WALLET_TYPE_ETHERS K,
     wd_version = TL_WALLET_VERSION K,
     signingKey = \<lparr> sk_privateKey = privateKey w, sk_mnemonic = mnemonic w \<rparr> \<rparr>"

text \<open>
  Modelled from the spec: the keystore is the key, symmetric-encrypted under a key
  derived from the password by the slow key-derivation function, with the fresh salt
  \<open>rnd\<close>; recovery derives the key from the password again and decrypts. The progress
  callback is not modelled.
\<close>

definition walletEncrypt :: "prims \<Rightarrow> walletFromEthers \<Rightarrow> string \<Rightarrow> string \<Rightarrow> keystore" where
  "walletEncrypt P w password rnd = \<lparr>
     ks_salt = rnd,
     ks_ciphertext =
       encryptSym P (deriveKey P password rnd) rnd
         \<lparr> sk_privateKey = privateKey w, sk_mnemonic = mnemonic w \<rparr> \<rparr>"

definition fromEncryptedJson :: "prims \<Rightarrow> keystore \<Rightarrow> string \<Rightarrow> error + walletFromEthers" where
  "fromEncryptedJson P ks password =
     (case decryptSym P (deriveKey P password (ks_salt ks)) (ks_ciphertext ks) of
        None \<Rightarrow> Inl (External ''invalid password'')
      | Some k \<Rightarrow>
          if validPrivateKey P (sk_privateKey k)
          then Inr \<lparr> privateKey = sk_privateKey k, mnemonic = sk_mnemonic k \<rparr>
          else Inl (External ''invalid private key''))"

definition utf8 :: "string \<Rightarrow> byte list" where
  "utf8 s = map (\<lambda>c. of_nat (of_char c)) s"

definition messagePrefix :: "byte list" where
  "messagePrefix = 25 # utf8 ''Ethereum Signed Message:'' @ [10]"

fun payload :: "message \<Rightarrow> byte list" where
  "payload (Bytes bs) = bs"
| "payload (Text s) = utf8 s"

text \<open>
  Modelled from the spec: the signing of the wallet class, which it inherits from the
  third-party wallet and which is not among the sources, is the standard
  personal-message scheme: the prefix, the length of the payload in decimal digits and
  the payload are hashed, and the digest is signed with the key.
\<close>

definition personalMessage :: "byte list \<Rightarrow> byte list" where
  "personalMessage bs = messagePrefix @ utf8 (decimal (length bs)) @ bs"

definition walletSignMessage :: "prims \<Rightarrow> walletFromEthers \<Rightarrow> message \<Rightarrow> string" where
  "walletSignMessage P w m =
     signDigest P (privateKey w) (keccak256 P (personalMessage (payload m)))"

subsection \<open>The methods of \<open>EthersWallet\<close>\<close>

text \<open>The one mutable field of the instance: the loaded wallet, if any.\<close>

record walletState =
  walletFromEthers :: "walletFromEthers option"

definition newEthersWallet :: walletState where
  "newEthersWallet = \<lparr> walletFromEthers = None \<rparr>"

definition address :: "prims \<Rightarrow> walletState \<Rightarrow> error + string" where
  "address P this =
     (case walletFromEthers this of
        None \<Rightarrow> Inl NoWalletLoaded
      | Some w \<Rightarrow> Inr (computeAddress P (privateKey w)))"

definition getWalletData :: "walletConsts \<Rightarrow> walletState \<Rightarrow> error + ethersWalletData" where
  "getWalletData K this =
     (case walletFromEthers this of
        None \<Rightarrow> Inl NoWalletLoaded
      | Some w \<Rightarrow> Inr (toEthersWalletData K w))"

definition encryptToSerializedKeystore ::
  "prims \<Rightarrow> ethersWalletData \<Rightarrow> string \<Rightarrow> string \<Rightarrow> error + keystore" where
  "encryptToSerializedKeystore P walletData password rnd =
     (case fromWalletData P walletData of
        Inl e \<Rightarrow> Inl e
      | Inr w \<Rightarrow> Inr (walletEncrypt P w password rnd))"

definition loadFrom ::
  "prims \<Rightarrow> walletConsts \<Rightarrow> walletState \<Rightarrow> ethersWalletData \<Rightarrow> (error + unit) \<times> walletState" where
  "loadFrom P K this walletData =
     (case verifyWalletData walletData (WALLET_TYPE_ETHERS K) (EXPECTED_VERSIONS K) of
        Inl e \<Rightarrow> (Inl e, this)
      | Inr u \<Rightarrow>
          (case fromWalletData P walletData of
             Inl e \<Rightarrow> (Inl e, this)
           | Inr w \<Rightarrow> (Inr (), this\<lparr> walletFromEthers := Some w \<rparr>)))"

definition recoverFromEncryptedKeystore ::
  "prims \<Rightarrow> walletConsts \<Rightarrow> keystore \<Rightarrow> string \<Rightarrow> error + ethersWalletData" where
  "recoverFromEncryptedKeystore P K serializedEncryptedKeystore password =
     (case fromEncryptedJson P serializedEncryptedKeystore password of
        Inl e \<Rightarrow> Inl e
      | Inr w \<Rightarrow> Inr (toEthersWalletData K w))"

definition recoverFromPrivateKey ::
  "prims \<Rightarrow> walletConsts \<Rightarrow> string \<Rightarrow> error + ethersWalletData" where
  "recoverFromPrivateKey P K key =
     (if validPrivateKey P key
      then Inr (toEthersWalletData K \<lparr> privateKey = key, mnemonic = None \<rparr>)
      else Inl (External ''invalid private key''))"

definition signMessage :: "prims \<Rightarrow> walletState \<Rightarrow> message \<Rightarrow> error + signature" where
  "signMessage P this m =
     (case walletFromEthers this of
        None \<Rightarrow> Inl NoWalletLoaded
      | Some w \<Rightarrow>
          let flatFormatSignature = walletSignMessage P w m
          in Inr \<lparr> concatSig = flatFormatSignature,
                    signature_ecSignature = splitSignature P flatFormatSignature \<rparr>)"

definition signMsgHash :: "prims \<Rightarrow> walletState \<Rightarrow> string \<Rightarrow> error + signature" where
  "signMsgHash P this msgHash =
     (case walletFromEthers this of
        None \<Rightarrow> Inl NoWalletLoaded
      | Some w \<Rightarrow>
          if \<not> isHexString msgHash None then Inl InvalidHexString
          else (case arrayify msgHash of
                  Inl e \<Rightarrow> Inl e
                | Inr msgHashBytes \<Rightarrow> signMessage P this (Bytes msgHashBytes)))"

definition exportPrivateKey :: "walletState \<Rightarrow> error + string" where
  "exportPrivateKey this =
     (case walletFromEthers this of
        None \<Rightarrow> Inl NoWalletLoaded
      | Some w \<Rightarrow> Inr (privateKey w))"

subsection \<open>Concrete wallet data\<close>

definition exampleConsts :: walletConsts where
  "exampleConsts = \<lparr> WALLET_TYPE_ETHERS = ''ethers'', EXPECTED_VERSIONS = [1],
                      TL_WALLET_VERSION = 1 \<rparr>"

definition exampleKey :: string where
  "exampleKey = ''0x'' @ replicate 64 (CHR ''7'')"

definition exampleWalletData :: ethersWalletData where
  "exampleWalletData = \<lparr>
     wd_type = ''ethers'', wd_version = 1,
     signingKey = \<lparr> sk_privateKey = exampleKey, sk_mnemonic = None \<rparr> \<rparr>"

definition exampleLoaded :: walletState where
  "exampleLoaded = \<lparr> walletFromEthers = Some \<lparr> privateKey = exampleKey, mnemonic = None \<rparr> \<rparr>"

section \<open>Verified properties\<close>

subsection \<open>The order hash\<close>

lemma bigNumberToNumber_readDecimal:
  "readDecimal v = Some n \<Longrightarrow> bigNumberToNumber v = Some (toNumber n)"
  by (cases v) simp_all

lemma readString_Some: "readString v = Some s \<Longrightarrow> v = JString s"
  by (cases v) simp_all

lemma orderParts_fields:
  assumes "orderFieldsOf order = Some f"
  shows "orderParts order = Some [
       (JString (fld_exchangeContractAddress f), TAddress),
       (JString (fld_maker f), TAddress),
       (JString (fld_taker f), TAddress),
       (JString (fld_makerTokenAddress f), TAddress),
       (JString (fld_takerTokenAddress f), TAddress),
       (JString (fld_feeRecipient f), TAddress),
       (JNumber (toNumber (fld_makerTokenAmount f)), TUint256),
       (JNumber (toNumber (fld_takerTokenAmount f)), TUint256),
       (JNumber (toNumber (fld_makerFee f)), TUint256),
       (JNumber (toNumber (fld_takerFee f)), TUint256),
       (JNumber (toNumber (fld_expirationUnixTimestampSec f)), TUint256),
       (JNumber (toNumber (fld_salt f)), TUint256)]"
  using assms unfolding orderFieldsOf_def orderParts_def
  by (auto simp: bind_eq_Some_conv dest!: readString_Some bigNumberToNumber_readDecimal)

lemma length_be_bytes [simp]: "length (be_bytes w n) = w"
  by (induction w arbitrary: n) simp_all

lemma packElem_address:
  "isAddress a \<Longrightarrow> packElem TAddress (JString a) = Some (addressWord a)"
  by (auto simp: isAddress_def addressWord_def setLengthLeft_def split: option.splits)

lemma length_addressWord: "isAddress a \<Longrightarrow> length (addressWord a) = 20"
  by (auto simp: isAddress_def addressWord_def split: option.splits)

lemma those_append:
  "those (xs @ ys) =
     (case those xs of None \<Rightarrow> None | Some a \<Rightarrow> map_option ((@) a) (those ys))"
proof (induction xs)
  case Nil
  show ?case by (cases "those ys") simp_all
next
  case (Cons x xs)
  then show ?case
    by (cases x; cases "those xs"; cases "those ys") simp_all
qed

lemma those_pack_addresses:
  "list_all isAddress as \<Longrightarrow>
     those (map (\<lambda>a. packElem TAddress (JString a)) as) = Some (map addressWord as)"
  by (induction as) (simp_all add: packElem_address del: packElem.simps)

lemma those_pack_uints:
  "those (map (\<lambda>n. packElem TUint256 (JNumber n)) ns) =
     (if list_all (\<lambda>n. n < 2 ^ 53) ns then Some (map (be_bytes 32) ns) else None)"
  by (induction ns) simp_all

lemma map2_snd_fst: "map2 f (map snd xs) (map fst xs) = map (\<lambda>x. f (snd x) (fst x)) xs"
  by (induction xs) simp_all

lemma solidityPack_addresses_uints:
  assumes "list_all isAddress as"
  shows "solidityPack
           (map snd (map (\<lambda>a. (JString a, TAddress)) as @ map (\<lambda>n. (JNumber n, TUint256)) ns))
           (map fst (map (\<lambda>a. (JString a, TAddress)) as @ map (\<lambda>n. (JNumber n, TUint256)) ns)) =
         (if list_all (\<lambda>n. n < 2 ^ 53) ns
          then Some (concat (map addressWord as) @ concat (map (be_bytes 32) ns))
          else None)"
  unfolding solidityPack_def map2_snd_fst
  by (simp add: those_append comp_def those_pack_addresses [OF assms] those_pack_uints
      del: packElem.simps)

text \<open>
  The rounding never takes a number from \<open>2 ^ 53\<close> on below \<open>2 ^ 53\<close>, and keeps
  every smaller number.
\<close>

lemma bit_length_lower: "0 < n \<Longrightarrow> 2 ^ (bit_length n - 1) \<le> n"
proof (induction n rule: bit_length.induct)
  case (1 n)
  show ?case
  proof (cases "n div 2 = 0")
    case True
    with "1.prems" have "n = 1" by (simp add: div_eq_0_iff) 
    then show ?thesis by (simp add: bit_length.simps)
  next
    case False
    then have "0 < n div 2" by simp
    with "1.IH" "1.prems" have ih: "2 ^ (bit_length (n div 2) - 1) \<le> n div 2" by simp
    have bl: "bit_length n = Suc (bit_length (n div 2))"
      using "1.prems" by (subst bit_length.simps) simp
    have pos: "0 < bit_length (n div 2)"
      using False by (subst bit_length.simps) simp
    then have "(2::nat) ^ (bit_length n - 1) = 2 * 2 ^ (bit_length (n div 2) - 1)"
      using bl by (cases "bit_length (n div 2)") simp_all
    also have "\<dots> \<le> 2 * (n div 2)" using ih by simp
    also have "\<dots> \<le> n" by simp
    finally show ?thesis .
  qed
qed

lemma bit_length_upper: "n < 2 ^ k \<Longrightarrow> bit_length n \<le> k"
proof (induction n arbitrary: k rule: bit_length.induct)
  case (1 n)
  show ?case
  proof (cases "n = 0")
    case True
    then show ?thesis by (simp add: bit_length.simps)
  next
    case False
    then obtain j where k: "k = Suc j" using "1.prems" by (cases k) auto
    with "1.prems" have "n div 2 < 2 ^ j" by auto
    with "1.IH" False have "bit_length (n div 2) \<le> j" by simp
    then show ?thesis using False k by (subst bit_length.simps) simp
  qed
qed


lemma bit_length_bound: "n < 2 ^ bit_length n"
proof (induction n rule: bit_length.induct)
  case (1 n)
  show ?case
  proof (cases "n = 0")
    case True
    then show ?thesis by simp
  next
    case False
    with "1.IH" have ih: "n div 2 < 2 ^ bit_length (n div 2)" by simp
    have bl: "bit_length n = Suc (bit_length (n div 2))"
      using False by (subst bit_length.simps) simp
    have "n < 2 * (n div 2 + 1)" by simp
    also have "\<dots> \<le> 2 * 2 ^ bit_length (n div 2)" using ih by simp
    finally show ?thesis by (simp add: bl)
  qed
qed

lemma toNumber_large:
  assumes "2 ^ 53 \<le> n"
  shows "2 ^ 53 \<le> toNumber n"
proof -
  define e where "e = bit_length n - 53"
  define q where "q = n div 2 ^ e"
  have "(2::nat) ^ 53 < 2 ^ bit_length n"
    using assms bit_length_bound [of n] by (rule le_less_trans)
  then have b: "53 < bit_length n" by (rule power_less_imp_less_exp [rotated]) simp
  then have e: "1 \<le> e" and be: "bit_length n - 1 = 52 + e" by (simp_all add: e_def)
  have "0 < n" using assms by (simp add: less_le_trans [of 0 "2 ^ 53"])
  then have "2 ^ (bit_length n - 1) \<le> n" by (rule bit_length_lower)
  then have "2 ^ 52 * 2 ^ e \<le> n" by (simp only: be power_add)
  then have q52: "2 ^ 52 \<le> q"
    unfolding q_def by (simp only: less_eq_div_iff_mult_less_eq [of "2 ^ e", simplified])
  have e2: "(2::nat) \<le> 2 ^ e"
    using e by (metis one_le_numeral power_increasing power_one_right)
  have "(2::nat) ^ 53 = 2 ^ 52 * 2" by simp
  also have "\<dots> \<le> q * 2 ^ e" using q52 e2 by (rule mult_le_mono)
  finally have low: "2 ^ 53 \<le> q * 2 ^ e" .
  have "q * 2 ^ e \<le> (if 2 ^ (e - 1) < n mod 2 ^ e \<or> (n mod 2 ^ e = 2 ^ (e - 1) \<and> odd q)
                       then q + 1 else q) * 2 ^ e"
    by simp
  also have "\<dots> = toNumber n"
    using assms by (simp add: toNumber_def Let_def e_def q_def not_less [symmetric])
  finally show ?thesis using low by (rule le_trans [rotated])
qed

lemma toNumber_safe: "toNumber n < 2 ^ 53 \<longleftrightarrow> n < 2 ^ 53"
proof
  assume "toNumber n < 2 ^ 53"
  then show "n < 2 ^ 53" using toNumber_large [of n] by (simp only: not_le [symmetric]) blast
next
  assume "n < 2 ^ 53"
  then show "toNumber n < 2 ^ 53" by (simp add: toNumber_def)
qed

lemma map_toNumber_safe:
  "list_all (\<lambda>n. n < 2 ^ 53) ns \<Longrightarrow> map toNumber ns = ns"
  by (induction ns) (simp_all add: toNumber_def)

lemma list_all_toNumber_safe:
  "list_all (\<lambda>n. n < 2 ^ 53) (map toNumber ns) \<longleftrightarrow> list_all (\<lambda>n. n < 2 ^ 53) ns"
  by (induction ns) (simp_all add: toNumber_safe [simplified])

lemma getOrderHashHex_fields:
  assumes "orderFieldsOf order = Some f"
      and "list_all isAddress (addressFields f)"
  shows "getOrderHashHex P order =
           (if list_all (\<lambda>n. n < 2 ^ 53) (uintFields f)
            then Some (orderHashSpec P f) else None)"
proof -
  let ?parts = "map (\<lambda>a. (JString a, TAddress)) (addressFields f) @
                map (\<lambda>n. (JNumber n, TUint256)) (map toNumber (uintFields f))"
  have parts: "orderParts order = Some ?parts"
    by (simp add: orderParts_fields [OF assms(1)] addressFields_def uintFields_def)
  have "getOrderHashHex P order =
          map_option (bufferToHex \<circ> keccak256 P) (solidityPack (map snd ?parts) (map fst ?parts))"
    unfolding getOrderHashHex_def parts soliditySHA3_def
    by (cases "solidityPack (map snd ?parts) (map fst ?parts)") (simp_all add: Let_def)
  also have "\<dots> = map_option (bufferToHex \<circ> keccak256 P)
           (if list_all (\<lambda>n. n < 2 ^ 53) (map toNumber (uintFields f))
            then Some (concat (map addressWord (addressFields f)) @
                       concat (map (be_bytes 32) (map toNumber (uintFields f))))
            else None)"
    by (simp only: solidityPack_addresses_uints [OF assms(2)])
  also have "\<dots> = (if list_all (\<lambda>n. n < 2 ^ 53) (uintFields f)
            then Some (orderHashSpec P f) else None)"
  proof (cases "list_all (\<lambda>n. n < 2 ^ 53) (uintFields f)")
    case True
    then show ?thesis
      by (simp only: list_all_toNumber_safe map_toNumber_safe [OF True])
         (simp add: orderHashSpec_def orderPreimageSpec_def)
  next
    case False
    then show ?thesis
      by (simp only: list_all_toNumber_safe) simp
  qed
  finally show ?thesis .
qed

lemma map_of_insertion_order:
  "distinct (map fst ps) \<Longrightarrow> distinct (map fst ps') \<Longrightarrow> set ps' = set ps \<Longrightarrow> map_of ps' = map_of ps"
  by (simp add: map_of_inject_set)

lemma getOrderHashHex_insertion_order:
  assumes "map_of ps' = map_of ps"
  shows "getOrderHashHex P (JObject ps') = getOrderHashHex P (JObject ps)"
  by (simp add: getOrderHashHex_def orderParts_def assms)


lemma length_orderPreimageSpec:
  "list_all isAddress (addressFields f) \<Longrightarrow> length (orderPreimageSpec f) = 312"
  by (simp add: orderPreimageSpec_def addressFields_def uintFields_def length_addressWord)

lemma exampleOrder_fields:
  "parse_decimal s = Some n \<Longrightarrow> orderFieldsOf (exampleOrder s) = Some (exampleFields n)"
  by (simp add: orderFieldsOf_def exampleOrder_def exampleFields_def parse_decimal_def
      digitval_def)

lemma exampleFields_addresses: "list_all isAddress (addressFields (exampleFields n))"
  by (simp add: addressFields_def exampleFields_def isAddress_def toBuffer_def padToEven_def
      hexval_def)

lemma exampleFields_uints:
  "uintFields (exampleFields n) = [100, 50000, 0, 0, 2524604400, n]"
  by (simp add: uintFields_def exampleFields_def)

text \<open>
  Claim C1. For every well-formed order, the order hash is computed over exactly twelve
  fields in a fixed order: exchange contract address, maker, taker, maker token address,
  taker token address, fee recipient (each as a 20-byte address), then maker token
  amount, taker token amount, maker fee, taker fee, expiration timestamp, salt (each as
  a 256-bit unsigned integer). The encodings are concatenated in that order with no
  separators (the preimage is \<open>6 * 20 + 6 * 32 = 312\<close> bytes long) and hashed with
  keccak. The digest is a function of those twelve fields alone: any order object that
  carries the same fields has the same digest, and so has the same object with its
  properties inserted in another order.
\<close>

theorem order_hash_twelve_fields:
  assumes "orderFieldsOf order = Some f" and "wellFormedOrder f"
  shows "getOrderHashHex P order = Some (orderHashSpec P f) \<and>
         length (orderPreimageSpec f) = 312 \<and>
         (\<forall>order'. orderFieldsOf order' = Some f \<longrightarrow>
            getOrderHashHex P order' = getOrderHashHex P order) \<and>
         (\<forall>ps ps'. order = JObject ps \<and> distinct (map fst ps) \<and> distinct (map fst ps') \<and>
            set ps' = set ps \<longrightarrow> getOrderHashHex P (JObject ps') = getOrderHashHex P order)"
proof -
  from assms(2) have addrs: "list_all isAddress (addressFields f)"
    and safe: "list_all (\<lambda>n. n < 2 ^ 53) (uintFields f)"
    by (simp_all add: wellFormedOrder_def)
  have hash: "getOrderHashHex P o' = Some (orderHashSpec P f)" if "orderFieldsOf o' = Some f" for o'
    using getOrderHashHex_fields [OF that addrs, of P] safe by simp
  have "getOrderHashHex P (JObject ps') = getOrderHashHex P order"
    if "order = JObject ps" "distinct (map fst ps)" "distinct (map fst ps')" "set ps' = set ps"
    for ps ps'
    using getOrderHashHex_insertion_order [OF map_of_insertion_order [OF that(2,3,4)], of P] that(1)
    by simp
  then have order_irrelevant:
    "\<forall>ps ps'. order = JObject ps \<and> distinct (map fst ps) \<and> distinct (map fst ps') \<and>
       set ps' = set ps \<longrightarrow> getOrderHashHex P (JObject ps') = getOrderHashHex P order"
    by (intro allI impI) (elim conjE)
  have pure: "\<forall>order'. orderFieldsOf order' = Some f \<longrightarrow>
            getOrderHashHex P order' = getOrderHashHex P order"
    using hash [OF assms(1)] hash by simp
  show ?thesis
    using hash [OF assms(1)] length_orderPreimageSpec [OF addrs] pure order_irrelevant
    by (intro conjI)
qed

theorem order_hash_twelve_fields_witness:
  "orderFieldsOf (exampleOrder ''12345'') = Some (exampleFields 12345) \<and>
   wellFormedOrder (exampleFields 12345) \<and>
   getOrderHashHex examplePrims (exampleOrder ''12345'') =
     Some (orderHashSpec examplePrims (exampleFields 12345)) \<and>
   length (orderPreimageSpec (exampleFields 12345)) = 312"
proof -
  have f: "orderFieldsOf (exampleOrder ''12345'') = Some (exampleFields 12345)"
    by (rule exampleOrder_fields) (simp add: parse_decimal_def digitval_def)
  have w: "wellFormedOrder (exampleFields 12345)"
    by (simp add: wellFormedOrder_def exampleFields_addresses exampleFields_uints)
  show ?thesis
    using order_hash_twelve_fields [OF f w, of examplePrims] f w by simp
qed

text \<open>
  Claim C2. For every \<open>uint256\<close> field, hashing either encodes the supplied integer
  exactly or rejects the order. When all six integers are below \<open>2 ^ 53\<close>, the digest
  is the one of the supplied values. When one of them is \<open>2 ^ 53\<close> or more, its
  nearest double is \<open>2 ^ 53\<close> or more as well, the packer refuses it, and no digest is
  produced: no value is encoded with a loss of precision.
\<close>

theorem uint_fields_exact_or_rejected:
  assumes "orderFieldsOf order = Some f" and "list_all isAddress (addressFields f)"
  shows "(list_all (\<lambda>n. n < 2 ^ 53) (uintFields f) \<longrightarrow>
            getOrderHashHex P order = Some (orderHashSpec P f)) \<and>
         ((\<exists>n \<in> set (uintFields f). 2 ^ 53 \<le> n) \<longrightarrow> getOrderHashHex P order = None) \<and>
         (getOrderHashHex P order = Some (orderHashSpec P f) \<or> getOrderHashHex P order = None)"
proof -
  note hash = getOrderHashHex_fields [OF assms, of P]
  have large: "getOrderHashHex P order = None" if "\<exists>n \<in> set (uintFields f). 2 ^ 53 \<le> n"
  proof -
    from that have "\<not> list_all (\<lambda>n. n < 2 ^ 53) (uintFields f)"
      by (auto simp: list_all_iff not_less)
    with hash show ?thesis by simp
  qed
  show ?thesis
  proof (cases "list_all (\<lambda>n. n < 2 ^ 53) (uintFields f)")
    case True
    with hash have "getOrderHashHex P order = Some (orderHashSpec P f)" by simp
    with large show ?thesis by blast
  next
    case False
    with hash have "getOrderHashHex P order = None" by simp
    with False show ?thesis by blast
  qed
qed

theorem uint_fields_exact_or_rejected_witness:
  "orderFieldsOf (exampleOrder ''9007199254740991'') = Some (exampleFields 9007199254740991) \<and>
   getOrderHashHex examplePrims (exampleOrder ''9007199254740991'') =
     Some (orderHashSpec examplePrims (exampleFields 9007199254740991)) \<and>
   orderFieldsOf (exampleOrder ''9007199254740993'') = Some (exampleFields 9007199254740993) \<and>
   getOrderHashHex examplePrims (exampleOrder ''9007199254740993'') = None"
proof -
  have f1: "orderFieldsOf (exampleOrder ''9007199254740991'') =
              Some (exampleFields 9007199254740991)"
    by (rule exampleOrder_fields) (simp add: parse_decimal_def digitval_def)
  have f2: "orderFieldsOf (exampleOrder ''9007199254740993'') =
              Some (exampleFields 9007199254740993)"
    by (rule exampleOrder_fields) (simp add: parse_decimal_def digitval_def)
  have s1: "list_all (\<lambda>n. n < 2 ^ 53) (uintFields (exampleFields 9007199254740991))"
    by (simp add: exampleFields_uints)
  have s2: "\<exists>n \<in> set (uintFields (exampleFields 9007199254740993)). 2 ^ 53 \<le> n"
    by (simp add: exampleFields_uints)
  from uint_fields_exact_or_rejected [OF f1 exampleFields_addresses, of examplePrims] s1
  have h1: "getOrderHashHex examplePrims (exampleOrder ''9007199254740991'') =
              Some (orderHashSpec examplePrims (exampleFields 9007199254740991))"
    by blast
  from uint_fields_exact_or_rejected [OF f2 exampleFields_addresses, of examplePrims] s2
  have h2: "getOrderHashHex examplePrims (exampleOrder ''9007199254740993'') = None"
    by blast
  show ?thesis by (intro conjI) (rule f1, rule h1, rule f2, rule h2)
qed

subsection \<open>Route resolution in the order assembler\<close>


lemma snd_bindIO:
  "snd (bindIO m f) = (case snd m of Inl e \<Rightarrow> Inl e | Inr x \<Rightarrow> snd (f x))"
  by (simp add: bindIO_def split: sum.splits)

lemma fst_allIO2 [simp]: "fst (allIO2 a b) = fst a @ fst b"
  by (simp add: allIO2_def)

lemma snd_allIO2:
  "snd (allIO2 a b) =
     (case snd a of Inl e \<Rightarrow> Inl e
      | Inr x \<Rightarrow> (case snd b of Inl e \<Rightarrow> Inl e | Inr y \<Rightarrow> Inr (x, y)))"
  by (simp add: allIO2_def)

lemma fst_external [simp]: "fst (external c r) = [c]"
  by (simp add: external_def)

lemma snd_external_Inr [simp]: "snd (external c (Inr x)) = Inr x"
  by (simp add: external_def)

lemma snd_external_Inl [simp]: "snd (external c (Inl m)) = Inl (External m)"
  by (simp add: external_def)

lemma io_ret [simp]: "fst (ret x) = []" "snd (ret x) = Inr x"
  by (simp_all add: ret_def)

lemma io_failIO [simp]: "fst (failIO e) = []" "snd (failIO e) = Inl e"
  by (simp_all add: failIO_def)

lemma io_getFees [simp]:
  "fst (getFees E order) = []"
  "snd (getFees E order) =
     Inr (order\<lparr> feeRecipient := ZERO_ADDRESS, makerFee := formatAmount E 0 2,
                  takerFee := formatAmount E 0 2 \<rparr>)"
  by (simp_all add: getFees_def)



lemma getPathObj_sentinel:
  "isNetwork E t = Inr False \<Longrightarrow>
     getPathObj E t a b n d =
       ([IsNetwork t],
        Inr \<lparr> path = [], maxFees = FeeNumber 0, estimatedGas = 40000, isNoNetwork = True \<rparr>)"
  by (simp add: getPathObj_def bindIO_def external_def ret_def)

text \<open>The two phases of prepTakeOrder, once the decimals are known.\<close>

lemma prepTakeOrder_legs:
  fixes fill :: rat
  assumes "getDecimals E (makerTokenAddress so) (makerTokenDecimals opts) = Inr md"
      and "getDecimals E (takerTokenAddress so) (takerTokenDecimals opts) = Inr td"
  defines "makerLeg \<equiv> getPathObj E (makerTokenAddress so) (maker so) (userAddress E)
                  (getPartialAmount fill (amt_value (takerTokenAmount so))
                     (amt_value (makerTokenAmount so))) md"
      and "takerLeg \<equiv> getPathObj E (takerTokenAddress so) (userAddress E) (maker so) (Finite fill) td"
  shows "snd makerLeg = Inl e \<Longrightarrow>
           prepTakeOrder E so fill opts =
             ([GetDecimals (makerTokenAddress so), GetDecimals (takerTokenAddress so)] @
              fst makerLeg @ fst takerLeg, Inl e)"
    and "snd makerLeg = Inr mp \<Longrightarrow> snd takerLeg = Inl e \<Longrightarrow>
           prepTakeOrder E so fill opts =
             ([GetDecimals (makerTokenAddress so), GetDecimals (takerTokenAddress so)] @
              fst makerLeg @ fst takerLeg, Inl e)"
    and "snd makerLeg = Inr mp \<Longrightarrow> snd takerLeg = Inr tp \<Longrightarrow> routeMissing mp \<or> routeMissing tp \<Longrightarrow>
           prepTakeOrder E so fill opts =
             ([GetDecimals (makerTokenAddress so), GetDecimals (takerTokenAddress so)] @
              fst makerLeg @ fst takerLeg, Inl NoPathWithCapacity)"
    and "snd makerLeg = Inr mp \<Longrightarrow> snd takerLeg = Inr tp \<Longrightarrow> \<not> routeMissing mp \<Longrightarrow> \<not> routeMissing tp \<Longrightarrow>
           snd (prepTakeOrder E so fill opts) \<noteq> Inl NoPathWithCapacity"
  using assms(1,2) unfolding makerLeg_def takerLeg_def
  by (simp_all add: prepTakeOrder_def bindIO_def allIO2_def Let_def external_def
      split: sum.splits)



lemma exampleEnv_simps [simp]:
  "userAddress (exampleEnv net found) = ''0x00000000000000000000000000000000000000c1''"
  "getDecimals (exampleEnv net found) t d = Inr (case d of Some n \<Rightarrow> n | None \<Rightarrow> 2)"
  "isNetwork (exampleEnv net found) t = Inr (t \<in> set net)"
  "getPath (exampleEnv net found) t a b n k =
     Inr \<lparr> path = found, maxFees = FeeAmount \<lparr> decimals = k, raw = ''0'', amt_value = 0 \<rparr>,
           estimatedGas = (if found = [] then 0 else 100000) \<rparr>"
  "prepFuncTx (exampleEnv net found) tx =
     Inr \<lparr> rawTx = ''0xf8'', ethFees = \<lparr> decimals = 18, raw = ''0'', amt_value = 0 \<rparr> \<rparr>"
  by (simp_all add: exampleEnv_def)

lemma exampleSignedOrder_simps [simp]:
  "makerTokenAddress exampleSignedOrder = tokenA"
  "takerTokenAddress exampleSignedOrder = tokenB"
  "maker exampleSignedOrder = ''0x00000000000000000000000000000000000000a1''"
  by (simp_all add: exampleSignedOrder_def)

lemma noOptions_simps [simp]:
  "makerTokenDecimals noOptions = None" "takerTokenDecimals noOptions = None"
  "gasLimit noOptions = None" "gasPrice noOptions = None"
  by (simp_all add: noOptions_def)




lemma exampleEnvDown_simps [simp]:
  "userAddress (exampleEnvDown net found down) = ''0x00000000000000000000000000000000000000c1''"
  "getDecimals (exampleEnvDown net found down) t d = Inr (case d of Some n \<Rightarrow> n | None \<Rightarrow> 2)"
  "isNetwork (exampleEnvDown net found down) t =
     (if t = down then Inl ''relay unreachable'' else Inr (t \<in> set net))"
  "getPath (exampleEnvDown net found down) t a b n k =
     Inr \<lparr> path = found, maxFees = FeeAmount \<lparr> decimals = k, raw = ''0'', amt_value = 0 \<rparr>,
           estimatedGas = (if found = [] then 0 else 100000) \<rparr>"
  by (simp_all add: exampleEnvDown_def exampleEnv_def)


text \<open>
  Claim C8. For a token that is not part of the trustline network, \<open>getPathObj\<close> asks
  nothing of the path finder and returns the sentinel route: empty path, zero maximal
  fees, an estimated gas of 40000 and the flag \<open>isNoNetwork\<close>. A fill whose maker-token
  leg (or taker-token leg) received the sentinel fails with \<open>'Could not find a path
  with enough capacity'\<close> only when the other leg resolved to an empty path without the
  flag.
\<close>

theorem non_network_token_gets_sentinel:
  fixes fill :: rat
  assumes "isNetwork E tok = Inr False"
  shows "getPathObj E tok a b n d =
           ([IsNetwork tok],
            Inr \<lparr> path = [], maxFees = FeeNumber 0, estimatedGas = 40000,
                  isNoNetwork = True \<rparr>) \<and>
         (getDecimals E (makerTokenAddress so) (makerTokenDecimals opts) = Inr md \<and>
          getDecimals E (takerTokenAddress so) (takerTokenDecimals opts) = Inr td \<and>
          makerTokenAddress so = tok \<and>
          snd (prepTakeOrder E so fill opts) = Inl NoPathWithCapacity \<longrightarrow>
            (\<exists>q. snd (getPathObj E (takerTokenAddress so) (userAddress E) (maker so)
                        (Finite fill) td) = Inr q \<and> path q = [] \<and> \<not> isNoNetwork q)) \<and>
         (getDecimals E (makerTokenAddress so) (makerTokenDecimals opts) = Inr md \<and>
          getDecimals E (takerTokenAddress so) (takerTokenDecimals opts) = Inr td \<and>
          takerTokenAddress so = tok \<and>
          snd (prepTakeOrder E so fill opts) = Inl NoPathWithCapacity \<longrightarrow>
            (\<exists>p. snd (getPathObj E (makerTokenAddress so) (maker so) (userAddress E)
                        (getPartialAmount fill (amt_value (takerTokenAmount so))
                           (amt_value (makerTokenAmount so))) md) = Inr p \<and>
                 path p = [] \<and> \<not> isNoNetwork p))"
proof -
  let ?makerLeg = "getPathObj E (makerTokenAddress so) (maker so) (userAddress E)
                  (getPartialAmount fill (amt_value (takerTokenAmount so))
                     (amt_value (makerTokenAmount so))) md"
  let ?takerLeg = "getPathObj E (takerTokenAddress so) (userAddress E) (maker so) (Finite fill) td"
  let ?sentinel = "\<lparr> path = [], maxFees = FeeNumber 0, estimatedGas = 40000,
                      isNoNetwork = True \<rparr> :: pathObj"
  note sentinel = getPathObj_sentinel [OF assms]
  have ok: "\<not> routeMissing ?sentinel"
    by (simp add: routeMissing_def)
  have other: "\<exists>p q. snd ?makerLeg = Inr p \<and> snd ?takerLeg = Inr q \<and> (routeMissing p \<or> routeMissing q)"
    if md: "getDecimals E (makerTokenAddress so) (makerTokenDecimals opts) = Inr md"
    and td: "getDecimals E (takerTokenAddress so) (takerTokenDecimals opts) = Inr td"
    and failed: "snd (prepTakeOrder E so fill opts) = Inl NoPathWithCapacity"
  proof -
    note legs = prepTakeOrder_legs [OF md td]
    show ?thesis
    proof (cases "snd ?makerLeg")
      case (Inl e)
      from legs(1) [OF Inl] failed have "e = NoPathWithCapacity" by simp
      moreover have "snd ?makerLeg \<noteq> Inl NoPathWithCapacity"
        by (auto simp: getPathObj_def snd_bindIO external_def split: sum.splits)
      ultimately show ?thesis using Inl by simp
    next
      case ml: (Inr p)
      show ?thesis
      proof (cases "snd ?takerLeg")
        case (Inl e)
        from legs(2) [OF ml Inl] failed have "e = NoPathWithCapacity" by simp
        moreover have "snd ?takerLeg \<noteq> Inl NoPathWithCapacity"
          by (auto simp: getPathObj_def snd_bindIO external_def split: sum.splits)
        ultimately show ?thesis using Inl by simp
      next
        case tl: (Inr q)
        from legs(4) [OF ml tl] failed have "routeMissing p \<or> routeMissing q" by blast
        with ml tl show ?thesis by blast
      qed
    qed
  qed
  have maker_leg: "\<exists>q. snd ?takerLeg = Inr q \<and> path q = [] \<and> \<not> isNoNetwork q"
    if "getDecimals E (makerTokenAddress so) (makerTokenDecimals opts) = Inr md"
       "getDecimals E (takerTokenAddress so) (takerTokenDecimals opts) = Inr td"
       "makerTokenAddress so = tok"
       "snd (prepTakeOrder E so fill opts) = Inl NoPathWithCapacity"
  proof -
    from other [OF that(1,2,4)] obtain p q
      where pq: "snd ?makerLeg = Inr p" "snd ?takerLeg = Inr q" "routeMissing p \<or> routeMissing q"
      by blast
    from pq(1) that(3) sentinel have "p = ?sentinel" by simp
    with ok pq(3) have "routeMissing q" by simp
    with pq(2) show ?thesis by (auto simp: routeMissing_def)
  qed
  have taker_leg: "\<exists>p. snd ?makerLeg = Inr p \<and> path p = [] \<and> \<not> isNoNetwork p"
    if "getDecimals E (makerTokenAddress so) (makerTokenDecimals opts) = Inr md"
       "getDecimals E (takerTokenAddress so) (takerTokenDecimals opts) = Inr td"
       "takerTokenAddress so = tok"
       "snd (prepTakeOrder E so fill opts) = Inl NoPathWithCapacity"
  proof -
    from other [OF that(1,2,4)] obtain p q
      where pq: "snd ?makerLeg = Inr p" "snd ?takerLeg = Inr q" "routeMissing p \<or> routeMissing q"
      by blast
    from pq(2) that(3) sentinel have "q = ?sentinel" by simp
    with ok pq(3) have "routeMissing p" by simp
    with pq(1) show ?thesis by (auto simp: routeMissing_def)
  qed
  show ?thesis
    using sentinel maker_leg taker_leg by (intro conjI impI) (simp, blast, blast)
qed

theorem non_network_token_gets_sentinel_witness:
  "isNetwork (exampleEnv [tokenA] []) tokenB = Inr False \<and>
   getPathObj (exampleEnv [tokenA] []) tokenB ''0xc1'' ''0xa1'' (Finite 1) 2 =
     ([IsNetwork tokenB],
      Inr \<lparr> path = [], maxFees = FeeNumber 0, estimatedGas = 40000, isNoNetwork = True \<rparr>)"
proof -
  have h: "isNetwork (exampleEnv [tokenA] []) tokenB = Inr False"
    by (simp add: tokenA_def tokenB_def)
  from non_network_token_gets_sentinel [OF h, THEN conjunct1] h
  show ?thesis by simp
qed

text \<open>With both tokens outside the network, the fill is prepared with 120000 gas.\<close>

lemma take_order_without_network:
  "\<exists>tx. fst (prepTakeOrder (exampleEnv [] []) exampleSignedOrder 1 noOptions) =
          [GetDecimals tokenA, GetDecimals tokenB, IsNetwork tokenA, IsNetwork tokenB,
           PrepFuncTx tx] \<and>
        tx_gasLimit tx = Some 120000 \<and>
        snd (prepTakeOrder (exampleEnv [] []) exampleSignedOrder 1 noOptions) =
          Inr \<lparr> rawTx = ''0xf8'', ethFees = \<lparr> decimals = 18, raw = ''0'', amt_value = 0 \<rparr>,
                makerMaxFees = FeeNumber 0, makerPath = [],
                takerMaxFees = FeeNumber 0, takerPath = [] \<rparr>"
  by (simp add: prepTakeOrder_def getPathObj_def bindIO_def allIO2_def external_def ret_def
      routeMissing_def getFees_def Let_def preparedTx.extend_def takeOrderTx.fields_def)






subsection \<open>Signing with the derived-key wallet\<close>

lemma hex_pairs_total:
  "list_all (\<lambda>c. hexval c \<noteq> None) cs \<Longrightarrow> even (length cs) \<Longrightarrow> \<exists>bs. hex_pairs cs = Some bs"
  by (induction cs rule: hex_pairs.induct) auto

lemma padToEven_hex:
  "list_all (\<lambda>c. hexval c \<noteq> None) cs \<Longrightarrow>
     list_all (\<lambda>c. hexval c \<noteq> None) (padToEven cs) \<and> even (length (padToEven cs))"
  by (simp add: padToEven_def hexval_def)

lemma arrayify_hex:
  assumes "isHexString d None"
  shows "\<exists>bs. arrayify d = Inr bs"
proof -
  from assms have p: "take 2 d = ''0x''" and h: "list_all (\<lambda>c. hexval c \<noteq> None) (drop 2 d)"
    by (simp_all add: isHexString_def)
  from hex_pairs_total padToEven_hex [OF h] obtain bs
    where "hex_pairs (padToEven (drop 2 d)) = Some bs" by blast
  with p h show ?thesis by (simp add: arrayify_def)
qed

text \<open>
  Claim C3, as amended. On an instance with no wallet loaded, as a fresh instance is,
  \<open>signMsgHash\<close> fails with \<open>'No wallet loaded.'\<close> (\<open>NoAccountLoadedError\<close>). On a
  loaded instance it fails with \<open>'Message hash is not a valid hex string.'\<close>
  (\<open>InvalidInputError\<close>) exactly when the digest is not \<open>0x\<close> followed by hexadecimal
  digits; a hexadecimal string of any width is signed.
\<close>

theorem sign_msg_hash_failures:
  "(walletFromEthers this = None \<longrightarrow> signMsgHash P this d = Inl NoWalletLoaded) \<and>
   (walletFromEthers this \<noteq> None \<longrightarrow>
      (signMsgHash P this d = Inl InvalidHexString \<longleftrightarrow> \<not> isHexString d None) \<and>
      (isHexString d None \<longrightarrow> (\<exists>sg. signMsgHash P this d = Inr sg))) \<and>
   signMsgHash P newEthersWallet d = Inl NoWalletLoaded"
proof -
  have "signMsgHash P this d = Inl InvalidHexString \<longleftrightarrow> \<not> isHexString d None"
    and "isHexString d None \<longrightarrow> (\<exists>sg. signMsgHash P this d = Inr sg)"
    if "walletFromEthers this = Some w" for w
    using that arrayify_hex [of d]
    by (auto simp: signMsgHash_def signMessage_def Let_def)
  then show ?thesis
    by (auto simp: signMsgHash_def newEthersWallet_def)
qed

theorem sign_msg_hash_failures_witness:
  "signMsgHash examplePrims newEthersWallet ''0x12'' = Inl NoWalletLoaded \<and>
   signMsgHash examplePrims exampleLoaded ''12'' = Inl InvalidHexString \<and>
   signMsgHash examplePrims exampleLoaded ''0xzz'' = Inl InvalidHexString"
proof -
  have l: "walletFromEthers exampleLoaded \<noteq> None"
    by (simp add: exampleLoaded_def)
  have a: "\<not> isHexString ''12'' None" and b: "\<not> isHexString ''0xzz'' None"
    by (simp_all add: isHexString_def hexval_def)
  from sign_msg_hash_failures [of exampleLoaded examplePrims "''12''"] l a
  have 1: "signMsgHash examplePrims exampleLoaded ''12'' = Inl InvalidHexString" by blast
  from sign_msg_hash_failures [of exampleLoaded examplePrims "''0xzz''"] l b
  have 2: "signMsgHash examplePrims exampleLoaded ''0xzz'' = Inl InvalidHexString" by blast
  from sign_msg_hash_failures [of newEthersWallet examplePrims "''0x12''"]
  have 3: "signMsgHash examplePrims newEthersWallet ''0x12'' = Inl NoWalletLoaded" by blast
  from 1 2 3 show ?thesis by blast
qed

text \<open>
  Claim C3 as stated fails: \<open>0x12\<close> is one byte, not a 32-byte hash, and a loaded
  wallet signs it, whatever the primitives.
\<close>

theorem sign_msg_hash_width_counterexample:
  "\<not> isHexString ''0x12'' (Some 32) \<and>
   (\<forall>P. \<exists>sg. signMsgHash P exampleLoaded ''0x12'' = Inr sg)"
  by (simp add: isHexString_def hexval_def signMsgHash_def exampleLoaded_def arrayify_def
      padToEven_def signMessage_def Let_def)

text \<open>
  Claim C4. For a loaded wallet and a \<open>0x\<close>-prefixed hexadecimal digest \<open>d\<close>,
  \<open>signMsgHash\<close> decodes \<open>d\<close> to bytes and hands these bytes, not the text \<open>d\<close>, to
  \<open>signMessage\<close>; what is signed is the keccak of the prefix, the decimal length of the
  decoded bytes and the decoded bytes, the prefix occurring once. \<open>signMessage\<close> signs
  the payload it is given as it is, under the same scheme.
\<close>

theorem sign_msg_hash_personal_message:
  assumes "walletFromEthers this = Some w" and "isHexString d None"
  shows "\<exists>bytes. arrayify d = Inr bytes \<and>
           signMsgHash P this d = signMessage P this (Bytes bytes) \<and>
           signMsgHash P this d =
             Inr \<lparr> concatSig =
                     signDigest P (privateKey w)
                       (keccak256 P (messagePrefix @ utf8 (decimal (length bytes)) @ bytes)),
                   signature_ecSignature =
                     splitSignature P
                       (signDigest P (privateKey w)
                          (keccak256 P (messagePrefix @ utf8 (decimal (length bytes)) @ bytes))) \<rparr> \<and>
           (\<forall>m. signMessage P this m =
             Inr \<lparr> concatSig =
                     signDigest P (privateKey w)
                       (keccak256 P
                          (messagePrefix @ utf8 (decimal (length (payload m))) @ payload m)),
                   signature_ecSignature =
                     splitSignature P
                       (signDigest P (privateKey w)
                          (keccak256 P
                             (messagePrefix @ utf8 (decimal (length (payload m))) @
                              payload m))) \<rparr>)"
proof -
  from arrayify_hex [OF assms(2)] obtain bytes where b: "arrayify d = Inr bytes" by blast
  have sm: "signMessage P this m =
             Inr \<lparr> concatSig =
                     signDigest P (privateKey w)
                       (keccak256 P
                          (messagePrefix @ utf8 (decimal (length (payload m))) @ payload m)),
                   signature_ecSignature =
                     splitSignature P
                       (signDigest P (privateKey w)
                          (keccak256 P
                             (messagePrefix @ utf8 (decimal (length (payload m))) @
                              payload m))) \<rparr>" for m
    using assms(1)
    by (simp add: signMessage_def walletSignMessage_def personalMessage_def Let_def)
  have sh: "signMsgHash P this d = signMessage P this (Bytes bytes)"
    using assms b by (simp add: signMsgHash_def)
  from b sh sm [of "Bytes bytes"] sm show ?thesis by auto
qed

theorem sign_msg_hash_personal_message_witness:
  "walletFromEthers exampleLoaded = Some \<lparr> privateKey = exampleKey, mnemonic = None \<rparr> \<and>
   isHexString ''0x12'' None \<and>
   arrayify ''0x12'' = Inr [18] \<and>
   signMsgHash examplePrims exampleLoaded ''0x12'' =
     signMessage examplePrims exampleLoaded (Bytes [18])"
proof -
  have l: "walletFromEthers exampleLoaded = Some \<lparr> privateKey = exampleKey, mnemonic = None \<rparr>"
    by (simp add: exampleLoaded_def)
  have h: "isHexString ''0x12'' None"
    by (simp add: isHexString_def hexval_def)
  have a: "arrayify ''0x12'' = Inr [18]"
    by (simp add: arrayify_def hexval_def padToEven_def)
  from sign_msg_hash_personal_message [OF l h, of examplePrims] a l h
  show ?thesis by auto
qed

subsection \<open>Keystores and wallet data\<close>

text \<open>
  Claim C6. For wallet data \<open>w\<close> with a valid key and a password \<open>p\<close>:
  \<open>encryptToSerializedKeystore\<close>, then \<open>recoverFromEncryptedKeystore\<close> with the same
  password, then \<open>loadFrom\<close> succeed and give an account whose address is the address
  of the key of \<open>w\<close>. It is assumed of the primitives that decrypting with the key that
  encrypted gives the private key back, and of the constants that the version written
  is one a loader accepts.
\<close>

theorem keystore_round_trip:
  assumes cipher: "\<forall>k iv m. \<exists>m'. decryptSym P k (encryptSym P k iv m) = Some m' \<and>
                      sk_privateKey m' = sk_privateKey m"
      and key: "validPrivateKey P (sk_privateKey (signingKey w))"
      and version: "TL_WALLET_VERSION K \<in> set (EXPECTED_VERSIONS K)"
  shows "\<exists>ks w' this'.
           encryptToSerializedKeystore P w p rnd = Inr ks \<and>
           recoverFromEncryptedKeystore P K ks p = Inr w' \<and>
           loadFrom P K this w' = (Inr (), this') \<and>
           address P this' = Inr (computeAddress P (sk_privateKey (signingKey w)))"
proof -
  let ?w = "\<lparr> privateKey = sk_privateKey (signingKey w),
               mnemonic = sk_mnemonic (signingKey w) \<rparr>"
  let ?ks = "walletEncrypt P ?w p rnd"
  have enc: "encryptToSerializedKeystore P w p rnd = Inr ?ks"
    using key by (simp add: encryptToSerializedKeystore_def fromWalletData_def)
  from cipher obtain m' where
    dec: "decryptSym P (deriveKey P p rnd)
            (encryptSym P (deriveKey P p rnd) rnd
               \<lparr> sk_privateKey = sk_privateKey (signingKey w),
                  sk_mnemonic = sk_mnemonic (signingKey w) \<rparr>) = Some m'"
    and same: "sk_privateKey m' = sk_privateKey (signingKey w)"
    by (metis signingKeyData.select_convs(1))
  let ?r = "\<lparr> privateKey = sk_privateKey m', mnemonic = sk_mnemonic m' \<rparr>"
  have rec: "recoverFromEncryptedKeystore P K ?ks p = Inr (toEthersWalletData K ?r)"
    using dec same key
    by (simp add: recoverFromEncryptedKeystore_def fromEncryptedJson_def walletEncrypt_def)
  have load: "loadFrom P K this (toEthersWalletData K ?r) =
                (Inr (), this\<lparr> walletFromEthers := Some ?r \<rparr>)"
    using version same key
    by (simp add: loadFrom_def verifyWalletData_def toEthersWalletData_def fromWalletData_def)
  have "address P (this\<lparr> walletFromEthers := Some ?r \<rparr>) =
          Inr (computeAddress P (sk_privateKey (signingKey w)))"
    using same by (simp add: address_def)
  with enc rec load show ?thesis by blast
qed

lemma examplePrims_cipher:
  "\<forall>k iv m. \<exists>m'. decryptSym examplePrims k (encryptSym examplePrims k iv m) = Some m' \<and>
      sk_privateKey m' = sk_privateKey m"
  by (simp add: examplePrims_def)

theorem keystore_round_trip_witness:
  "\<exists>ks w' this'.
     encryptToSerializedKeystore examplePrims exampleWalletData ''secret'' ''salt'' = Inr ks \<and>
     recoverFromEncryptedKeystore examplePrims exampleConsts ks ''secret'' = Inr w' \<and>
     loadFrom examplePrims exampleConsts newEthersWallet w' = (Inr (), this') \<and>
     address examplePrims this' = Inr (''0x'' @ replicate 40 (CHR ''7''))"
proof -
  have key: "validPrivateKey examplePrims (sk_privateKey (signingKey exampleWalletData))"
    by (simp add: examplePrims_def exampleWalletData_def exampleKey_def)
  have version: "TL_WALLET_VERSION exampleConsts \<in> set (EXPECTED_VERSIONS exampleConsts)"
    by (simp add: exampleConsts_def)
  have addr: "computeAddress examplePrims (sk_privateKey (signingKey exampleWalletData)) =
                ''0x'' @ replicate 40 (CHR ''7'')"
    by (simp add: examplePrims_def exampleWalletData_def exampleKey_def)
  from keystore_round_trip [OF examplePrims_cipher key version,
      of "''secret''" "''salt''" newEthersWallet]
  show ?thesis unfolding addr .
qed

text \<open>
  Claim C7. For wallet data whose type tag is not the one of this backend or whose
  version is not among the accepted ones, \<open>loadFrom\<close> fails with what
  \<open>verifyWalletData\<close> throws (\<open>FormatError\<close>), whatever the payload is, and leaves the
  instance as it was: the address and every signature are those of the wallet loaded
  before.
\<close>

theorem load_from_rejects_unknown_format:
  assumes "wd_type wd \<noteq> WALLET_TYPE_ETHERS K \<or> wd_version wd \<notin> set (EXPECTED_VERSIONS K)"
  shows "loadFrom P K this wd = (Inl WalletDataRejected, this) \<and>
         (\<forall>k. loadFrom P K this (wd\<lparr> signingKey := k \<rparr>) = (Inl WalletDataRejected, this)) \<and>
         address P (snd (loadFrom P K this wd)) = address P this \<and>
         (\<forall>d. signMsgHash P (snd (loadFrom P K this wd)) d = signMsgHash P this d)"
  using assms by (auto simp: loadFrom_def verifyWalletData_def)

theorem load_from_rejects_unknown_format_witness:
  "loadFrom examplePrims exampleConsts exampleLoaded (exampleWalletData\<lparr> wd_version := 7 \<rparr>) =
     (Inl WalletDataRejected, exampleLoaded) \<and>
   loadFrom examplePrims exampleConsts exampleLoaded (exampleWalletData\<lparr> wd_type := ''identity'' \<rparr>) =
     (Inl WalletDataRejected, exampleLoaded) \<and>
   address examplePrims exampleLoaded = Inr (''0x'' @ replicate 40 (CHR ''7''))"
proof -
  have v: "wd_type (exampleWalletData\<lparr> wd_version := 7 \<rparr>) \<noteq> WALLET_TYPE_ETHERS exampleConsts \<or>
           wd_version (exampleWalletData\<lparr> wd_version := 7 \<rparr>) \<notin> set (EXPECTED_VERSIONS exampleConsts)"
    by (simp add: exampleConsts_def)
  have t: "wd_type (exampleWalletData\<lparr> wd_type := ''identity'' \<rparr>) \<noteq> WALLET_TYPE_ETHERS exampleConsts \<or>
           wd_version (exampleWalletData\<lparr> wd_type := ''identity'' \<rparr>) \<notin>
             set (EXPECTED_VERSIONS exampleConsts)"
    by (simp add: exampleConsts_def)
  have a: "address examplePrims exampleLoaded = Inr (''0x'' @ replicate 40 (CHR ''7''))"
    by (simp add: address_def exampleLoaded_def examplePrims_def exampleKey_def)
  from load_from_rejects_unknown_format [OF v, of examplePrims exampleLoaded]
    load_from_rejects_unknown_format [OF t, of examplePrims exampleLoaded] a
  show ?thesis by blast
qed

subsection \<open>The salt of \<open>makeOrder\<close>\<close>

lemma roundHalfEven_le: "y \<le> of_int N \<Longrightarrow> roundHalfEven y \<le> N"
proof -
  assume a: "y \<le> of_int N"
  have f: "\<lfloor>y\<rfloor> \<le> N" using a by (simp add: floor_le_iff)
  show ?thesis
  proof (cases "y = of_int \<lfloor>y\<rfloor>")
    case True
    then have "y - of_int \<lfloor>y\<rfloor> < 1 / 2" by simp
    then show ?thesis using f by (simp add: roundHalfEven_def Let_def)
  next
    case False
    then have "of_int \<lfloor>y\<rfloor> \<noteq> y" by (rule not_sym)
    then have "of_int \<lfloor>y\<rfloor> < y"
      using of_int_floor_le [of y] by (rule order.not_eq_order_implies_strict)
    with a have "of_int \<lfloor>y\<rfloor> < (of_int N :: rat)" by linarith
    then have "\<lfloor>y\<rfloor> < N" by simp
    then show ?thesis by (simp add: roundHalfEven_def Let_def)
  qed
qed

lemma roundHalfEven_less: "y < of_int N - 1 / 2 \<Longrightarrow> roundHalfEven y \<le> N - 1"
proof -
  assume a: "y < of_int N - 1 / 2"
  have fy: "of_int \<lfloor>y\<rfloor> \<le> y" by simp
  with a have "of_int \<lfloor>y\<rfloor> < (of_int N :: rat)" by linarith
  then have f: "\<lfloor>y\<rfloor> \<le> N - 1" by simp
  show ?thesis
  proof (cases "\<lfloor>y\<rfloor> = N - 1")
    case True
    with a have "y - of_int \<lfloor>y\<rfloor> < 1 / 2" by simp
    then show ?thesis using f by (simp add: roundHalfEven_def Let_def)
  next
    case False
    with f have "\<lfloor>y\<rfloor> + 1 \<le> N - 1" by simp
    with f show ?thesis by (simp add: roundHalfEven_def Let_def)
  qed
qed

lemma roundToDouble_nonneg: "0 \<le> x \<Longrightarrow> 0 \<le> roundToDouble x"
proof -
  assume x: "0 \<le> x"
  have u: "0 \<le> ulp x" by (simp add: ulp_def)
  then have "0 \<le> x / ulp x" using x by simp
  then have "0 \<le> \<lfloor>x / ulp x\<rfloor>" by simp
  then have "0 \<le> roundHalfEven (x / ulp x)" by (simp add: roundHalfEven_def Let_def)
  with u show ?thesis by (simp add: roundToDouble_def)
qed

lemma roundToDouble_small:
  assumes "0 < x" and "x < 1"
  shows "roundToDouble x \<le> 1"
proof -
  let ?k = "expBelow 1022 x + 52"
  have u: "ulp x = 1 / 2 ^ ?k" using assms by (simp add: ulp_def)
  have "x / ulp x = x * 2 ^ ?k" by (simp add: u)
  also have "\<dots> \<le> 1 * 2 ^ ?k" using assms by (intro mult_right_mono) simp_all
  finally have "x / ulp x \<le> of_int (2 ^ ?k)" by simp
  then have "roundHalfEven (x / ulp x) \<le> 2 ^ ?k" by (rule roundHalfEven_le)
  then have "(of_int (roundHalfEven (x / ulp x)) :: rat) \<le> of_int (2 ^ ?k)"
    by (simp only: of_int_le_iff)
  then have "of_int (roundHalfEven (x / ulp x)) / (2 ^ ?k :: rat) \<le> 1" by simp
  then show ?thesis using assms by (simp add: roundToDouble_def u)
qed


lemma roundToDouble_below_billion:
  assumes "1 \<le> x" and "x \<le> 1000000000 - 1000000000 / 2 ^ 53"
  shows "roundToDouble x < 1000000000"
proof -
  let ?n = "nat \<lfloor>x\<rfloor>"
  let ?b = "bit_length ?n"
  have n1: "0 < ?n" using assms(1) by simp
  have "rat_of_nat ?n \<le> x" using assms(1) by simp
  also have "\<dots> < 2 ^ 30" using assms(2) by simp
  finally have "rat_of_nat ?n < rat_of_nat (2 ^ 30)" by simp
  then have "?n < 2 ^ 30" by (simp only: of_nat_less_iff)
  then have b30: "?b \<le> 30" by (rule bit_length_upper)
  have b1: "1 \<le> ?b" using n1 by (subst bit_length.simps) simp
  define d where "d = 53 - ?b"
  have db: "d + ?b = 53" "?b - 1 + d = 52" using b30 b1 by (simp_all add: d_def)
  have p52: "(2::rat) ^ 52 = 2 ^ (?b - 1) * 2 ^ d"
    by (simp only: power_add [symmetric] db)
  have "ulp x = 2 ^ (?b - 1) / 2 ^ 52"
    unfolding ulp_def using assms(1) by (simp only: if_True)
  also have "\<dots> = 2 ^ (?b - 1) / (2 ^ (?b - 1) * 2 ^ d)"
    by (simp only: p52)
  also have "\<dots> = 1 / 2 ^ d" by simp
  finally have u: "ulp x = 1 / 2 ^ d" .
  have p53: "(2::rat) ^ 53 = 2 ^ d * 2 ^ ?b"
    by (simp only: power_add [symmetric] db)
  have "(2 ^ d :: rat) / 2 ^ 53 = 2 ^ d / (2 ^ d * 2 ^ ?b)"
    by (simp only: p53)
  also have "\<dots> = 1 / 2 ^ ?b" by simp
  finally have frac: "(2 ^ d :: rat) / 2 ^ 53 = 1 / 2 ^ ?b" .
  have "(2::rat) ^ ?b \<le> 2 ^ 30" using b30 by (intro power_increasing) simp_all
  then have "(1000000000 :: rat) / 2 ^ 30 \<le> 1000000000 / 2 ^ ?b"
    by (intro divide_left_mono) simp_all
  moreover have "(1 / 2 :: rat) < 1000000000 / 2 ^ 30" by simp
  ultimately have half: "(1 / 2 :: rat) < 1000000000 / 2 ^ ?b" by linarith
  have "x / ulp x = x * 2 ^ d" by (simp add: u)
  also have "\<dots> \<le> (1000000000 - 1000000000 / 2 ^ 53) * 2 ^ d"
    using assms(2) by (intro mult_right_mono) simp_all
  also have "\<dots> = 1000000000 * 2 ^ d - 1000000000 * (2 ^ d / 2 ^ 53)"
    by (simp add: algebra_simps)
  also have "\<dots> = 1000000000 * 2 ^ d - 1000000000 / 2 ^ ?b"
    by (simp only: frac)
  also have "\<dots> < 1000000000 * 2 ^ d - 1 / 2" using half by simp
  finally have "x / ulp x < of_int (1000000000 * 2 ^ d) - 1 / 2" by simp
  then have "roundHalfEven (x / ulp x) \<le> 1000000000 * 2 ^ d - 1"
    by (rule roundHalfEven_less)
  then have "(of_int (roundHalfEven (x / ulp x)) :: rat) \<le> of_int (1000000000 * 2 ^ d - 1)"
    by (simp only: of_int_le_iff)
  then have "(of_int (roundHalfEven (x / ulp x)) :: rat) < 1000000000 * 2 ^ d" by simp
  then have "of_int (roundHalfEven (x / ulp x)) / (2 ^ d :: rat) < 1000000000"
    by (simp add: divide_less_eq)
  then show ?thesis using assms(1) by (simp add: roundToDouble_def u)
qed


lemma unit_double_bound:
  assumes "m < 2 ^ 53" and "53 \<le> e"
  shows "rat_of_nat m / 2 ^ e \<le> 1 - 1 / 2 ^ 53"
proof -
  from assms(1) have "m \<le> 2 ^ 53 - 1" by simp
  then have "rat_of_nat m \<le> rat_of_nat (2 ^ 53 - 1)" by (simp only: of_nat_le_iff)
  also have "rat_of_nat (2 ^ 53 - 1) = 2 ^ 53 - 1" by simp
  finally have m: "rat_of_nat m \<le> 2 ^ 53 - 1" .
  have e: "(2::rat) ^ 53 \<le> 2 ^ e" using assms(2) by (intro power_increasing) simp_all
  have "rat_of_nat m / 2 ^ e \<le> (2 ^ 53 - 1) / 2 ^ 53"
    using m e by (intro frac_le) simp_all
  also have "((2::rat) ^ 53 - 1) / 2 ^ 53 = 1 - 1 / 2 ^ 53" by simp
  finally show ?thesis .
qed


lemma randomSalt_bound:
  assumes "m < 2 ^ 53" and "53 \<le> e"
  shows "randomSalt (of_nat m / 2 ^ e) < 1000000000"
proof -
  define x where "x = rat_of_nat m / 2 ^ e * 1000000000"
  have r: "rat_of_nat m / 2 ^ e \<le> 1 - 1 / 2 ^ 53"
    using assms by (rule unit_double_bound)
  have x0: "0 \<le> x" by (simp add: x_def)
  have "x \<le> (1 - 1 / 2 ^ 53) * 1000000000"
    unfolding x_def using r by (intro mult_right_mono) simp_all
  also have "(1 - 1 / 2 ^ 53) * 1000000000 = (1000000000 - 1000000000 / 2 ^ 53 :: rat)"
    by simp
  finally have xb: "x \<le> 1000000000 - 1000000000 / 2 ^ 53" .
  have lt: "roundToDouble x < 1000000000"
  proof (cases "1 \<le> x")
    case True
    then show ?thesis using xb by (rule roundToDouble_below_billion)
  next
    case False
    show ?thesis
    proof (cases "x = 0")
      case True
      then show ?thesis by (simp add: roundToDouble_def)
    next
      case nz: False
      then have "0 \<noteq> x" by (rule not_sym)
      then have "0 < x" using x0 by (rule order.not_eq_order_implies_strict)
      moreover from False have "x < 1" by simp
      ultimately have "roundToDouble x \<le> 1" by (rule roundToDouble_small)
      then show ?thesis by simp
    qed
  qed
  have ge: "0 \<le> roundToDouble x" using x0 by (rule roundToDouble_nonneg)
  from lt have "roundToDouble x < rat_of_int 1000000000" by simp
  then have fl: "\<lfloor>roundToDouble x\<rfloor> < 1000000000" by (simp only: floor_less_iff)
  have "nat \<lfloor>roundToDouble x\<rfloor> < nat 1000000000"
    by (rule iffD2 [OF zless_nat_conj]) (rule conjI, simp, rule fl)
  also have "nat 1000000000 = 1000000000" by simp
  finally show ?thesis by (simp only: randomSalt_def x_def)
qed

lemma roundHalfEven_of_int: "roundHalfEven (of_int k) = k"
  by (simp add: roundHalfEven_def)

lemma randomSalt_half: "randomSalt (1 / 2) = 500000000"
proof -
  have b: "bit_length 500000000 = 29" by (simp add: bit_length.simps)
  have u: "ulp 500000000 = 1 / 2 ^ 24" by (simp add: ulp_def b)
  have "roundToDouble 500000000 = (1 / 2 ^ 24) * of_int (roundHalfEven (of_int (500000000 * 2 ^ 24)))"
    by (simp add: roundToDouble_def u)
  then have "roundToDouble 500000000 = 500000000"
    by (simp only: roundHalfEven_of_int) simp
  then show ?thesis by (simp add: randomSalt_def)
qed


lemma digitval_char_of: "d < 10 \<Longrightarrow> digitval (char_of (48 + d)) = Some d"
  by (simp add: digitval_def)

lemma parse_digits_append:
  "parse_digits acc (xs @ ys) =
     (case parse_digits acc xs of None \<Rightarrow> None | Some a \<Rightarrow> parse_digits a ys)"
  by (induction xs arbitrary: acc) (simp_all split: option.splits)

lemma parse_digits_decimal: "parse_digits 0 (decimal n) = Some n"
proof (induction n rule: decimal.induct)
  case (1 n)
  show ?case
  proof (cases "n < 10")
    case True
    then show ?thesis
      by (subst decimal.simps) (simp add: digitval_char_of)
  next
    case False
    with "1.IH" have ih: "parse_digits 0 (decimal (n div 10)) = Some (n div 10)" by simp
    have "n mod 10 < 10" by simp
    then have d: "digitval (char_of (48 + n mod 10)) = Some (n mod 10)"
      by (rule digitval_char_of)
    show ?thesis
      using False by (subst decimal.simps) (simp add: parse_digits_append ih d)
  qed
qed

lemma decimal_nonempty: "decimal n \<noteq> []"
  by (subst decimal.simps) simp

lemma parse_decimal_decimal: "parse_decimal (decimal n) = Some n"
  by (simp add: parse_decimal_def decimal_nonempty parse_digits_decimal)

lemma makeOrder_salt:
  "snd (makeOrder E P rnd x mt tt mv tv opts) = Inr (so, h) \<Longrightarrow>
     salt so = decimal (randomSalt rnd) \<and>
     getOrderHashHex P (JObject (orderProps so)) = Some h"
  by (auto simp: makeOrder_def snd_bindIO snd_allIO2 getFees_def ret_def Let_def
      order.extend_def signedOrder.fields_def orderProps_def external_def failIO_def
      split: sum.splits option.splits)


text \<open>A run of \<open>makeOrder\<close> with the draw one half.\<close>

lemma decimal_500000000: "decimal 500000000 = ''500000000''"
  by (simp add: decimal.simps char_of_def bit_Suc_0_iff)

lemma decimal_2524604400: "decimal 2524604400 = ''2524604400''"
  by (simp add: decimal.simps char_of_def bit_Suc_0_iff)

lemma makeOrder_example_fields:
  "orderFieldsOf (JObject (orderProps
     \<lparr> exchangeContractAddress = ''0x00000000000000000000000000000000000000e1'',
       maker = ''0x00000000000000000000000000000000000000c1'',
       taker = ZERO_ADDRESS,
       makerTokenAddress = tokenA,
       takerTokenAddress = tokenB,
       feeRecipient = ZERO_ADDRESS,
       makerTokenAmount = \<lparr> decimals = 2, raw = ''0'', amt_value = 1 \<rparr>,
       takerTokenAmount = \<lparr> decimals = 2, raw = ''0'', amt_value = 5 \<rparr>,
       makerFee = \<lparr> decimals = 2, raw = ''0'', amt_value = 0 \<rparr>,
       takerFee = \<lparr> decimals = 2, raw = ''0'', amt_value = 0 \<rparr>,
       expirationUnixTimestampSec = ''2524604400'',
       salt = ''500000000'' \<rparr>)) =
   Some \<lparr> fld_exchangeContractAddress = ''0x00000000000000000000000000000000000000e1'',
     fld_maker = ''0x00000000000000000000000000000000000000c1'',
     fld_taker = ''0x0000000000000000000000000000000000000000'',
     fld_makerTokenAddress = ''0x00000000000000000000000000000000000000b1'',
     fld_takerTokenAddress = ''0x00000000000000000000000000000000000000b2'',
     fld_feeRecipient = ''0x0000000000000000000000000000000000000000'',
     fld_makerTokenAmount = 0,
     fld_takerTokenAmount = 0,
     fld_makerFee = 0,
     fld_takerFee = 0,
     fld_expirationUnixTimestampSec = 2524604400,
     fld_salt = 500000000 \<rparr>"
  by (simp add: orderFieldsOf_def orderProps_def amountObject_def parse_decimal_def
      digitval_def ZERO_ADDRESS_def tokenA_def tokenB_def)


lemma makeOrder_example:
  "\<exists>so h. snd (makeOrder (exampleEnv [] []) examplePrims (1 / 2)
                 ''0x00000000000000000000000000000000000000e1'' tokenA tokenB 1 5 noOptions) =
             Inr (so, h) \<and>
           salt so = ''500000000''"
proof -
  let ?f = "\<lparr> fld_exchangeContractAddress = ''0x00000000000000000000000000000000000000e1'',
     fld_maker = ''0x00000000000000000000000000000000000000c1'',
     fld_taker = ''0x0000000000000000000000000000000000000000'',
     fld_makerTokenAddress = ''0x00000000000000000000000000000000000000b1'',
     fld_takerTokenAddress = ''0x00000000000000000000000000000000000000b2'',
     fld_feeRecipient = ''0x0000000000000000000000000000000000000000'',
     fld_makerTokenAmount = 0,
     fld_takerTokenAmount = 0,
     fld_makerFee = 0,
     fld_takerFee = 0,
     fld_expirationUnixTimestampSec = 2524604400,
     fld_salt = 500000000 \<rparr>"
  have addrs: "list_all isAddress (addressFields ?f)"
    by (simp add: addressFields_def isAddress_def toBuffer_def padToEven_def hexval_def)
  have fit: "list_all (\<lambda>n. n < 2 ^ 53) (uintFields ?f)"
    by (simp add: uintFields_def)
  from getOrderHashHex_fields [OF makeOrder_example_fields addrs, of examplePrims] fit
  obtain h where h: "getOrderHashHex examplePrims (JObject (orderProps
     \<lparr> exchangeContractAddress = ''0x00000000000000000000000000000000000000e1'',
       maker = ''0x00000000000000000000000000000000000000c1'',
       taker = ZERO_ADDRESS,
       makerTokenAddress = tokenA,
       takerTokenAddress = tokenB,
       feeRecipient = ZERO_ADDRESS,
       makerTokenAmount = \<lparr> decimals = 2, raw = ''0'', amt_value = 1 \<rparr>,
       takerTokenAmount = \<lparr> decimals = 2, raw = ''0'', amt_value = 5 \<rparr>,
       makerFee = \<lparr> decimals = 2, raw = ''0'', amt_value = 0 \<rparr>,
       takerFee = \<lparr> decimals = 2, raw = ''0'', amt_value = 0 \<rparr>,
       expirationUnixTimestampSec = ''2524604400'',
       salt = ''500000000'' \<rparr>)) = Some h"
    by simp
  have P: "toChecksumAddress examplePrims = (\<lambda>a. a)"
    by (simp add: examplePrims_def)
  have E: "formatAmount (exampleEnv [] []) = (\<lambda>v d. \<lparr> decimals = d, raw = ''0'', amt_value = v \<rparr>)"
    "userSignMsgHash (exampleEnv [] []) h =
       Inr \<lparr> concatSig = h, signature_ecSignature = \<lparr> sig_v = 27, sig_r = h, sig_s = h \<rparr> \<rparr>"
    "postRequest (exampleEnv [] []) = (\<lambda>p b. Inr ())"
    by (simp_all add: exampleEnv_def)
  show ?thesis
    by (simp add: makeOrder_def snd_bindIO snd_allIO2 getFees_def ret_def P E h
        randomSalt_half decimal_500000000 decimal_2524604400 order.extend_def
        signedOrder.fields_def external_def noOptions_def Let_def)
qed

text \<open>
  Claim C10. For every draw of \<open>Math.random()\<close>, that is for every double in
  \<open>[0, 1)\<close> (every \<open>m / 2 ^ e\<close> with \<open>m < 2 ^ 53\<close> and \<open>53 \<le> e\<close>), the salt that
  \<open>makeOrder\<close> places in the order is the decimal string of a natural number below
  \<open>10 ^ 9\<close>, hence below \<open>2 ^ 30\<close>; the number hashed for the salt is that number,
  and the hash returned is the hash of the order with that salt.
\<close>

theorem make_order_salt_below_billion:
  assumes "m < 2 ^ 53" and "53 \<le> e"
  shows "randomSalt (of_nat m / 2 ^ e) < 1000000000 \<and>
         randomSalt (of_nat m / 2 ^ e) < 2 ^ 30 \<and>
         (\<forall>so h. snd (makeOrder E P (of_nat m / 2 ^ e) x mt tt mv tv opts) = Inr (so, h) \<longrightarrow>
            salt so = decimal (randomSalt (of_nat m / 2 ^ e)) \<and>
            bigNumberToNumber (JString (salt so)) = Some (randomSalt (of_nat m / 2 ^ e)) \<and>
            getOrderHashHex P (JObject (orderProps so)) = Some h)"
proof -
  let ?n = "randomSalt (of_nat m / 2 ^ e)"
  have n: "?n < 1000000000" using assms by (rule randomSalt_bound)
  then have n30: "?n < 2 ^ 30" by simp
  from n have "?n < 2 ^ 53" by simp
  then have exact: "toNumber ?n = ?n" by (simp add: toNumber_def)
  have "salt so = decimal ?n \<and> bigNumberToNumber (JString (salt so)) = Some ?n \<and>
        getOrderHashHex P (JObject (orderProps so)) = Some h"
    if "snd (makeOrder E P (of_nat m / 2 ^ e) x mt tt mv tv opts) = Inr (so, h)" for so h
    using makeOrder_salt [OF that] by (simp add: parse_decimal_decimal exact)
  with n n30 show ?thesis by blast
qed

theorem make_order_salt_below_billion_witness:
  "(4503599627370496 :: nat) < 2 ^ 53 \<and> (53 :: nat) \<le> 53 \<and>
   randomSalt (of_nat 4503599627370496 / 2 ^ 53) = 500000000 \<and>
   randomSalt (of_nat 4503599627370496 / 2 ^ 53) < 1000000000 \<and>
   (\<exists>so h. snd (makeOrder (exampleEnv [] []) examplePrims (of_nat 4503599627370496 / 2 ^ 53)
                 ''0x00000000000000000000000000000000000000e1'' tokenA tokenB 1 5 noOptions) =
             Inr (so, h) \<and>
           salt so = ''500000000'')"
proof -
  have m: "(4503599627370496 :: nat) < 2 ^ 53" by simp
  have e: "(53 :: nat) \<le> 53" by simp
  have half: "rat_of_nat 4503599627370496 / 2 ^ 53 = 1 / 2" by simp
  have v: "randomSalt (of_nat 4503599627370496 / 2 ^ 53) = 500000000"
    unfolding half by (rule randomSalt_half)
  have run: "\<exists>so h. snd (makeOrder (exampleEnv [] []) examplePrims
                 (of_nat 4503599627370496 / 2 ^ 53)
                 ''0x00000000000000000000000000000000000000e1'' tokenA tokenB 1 5 noOptions) =
             Inr (so, h) \<and>
           salt so = ''500000000''"
    unfolding half by (rule makeOrder_example)
  from make_order_salt_below_billion [OF m e]
  have "randomSalt (of_nat 4503599627370496 / 2 ^ 53) < 1000000000" by (rule conjunct1)
  with m e v run show ?thesis by (intro conjI)
qed

end
